theory Spec2Isabelle
  imports Complex_Main "HOL-Library.AList" "HOL-Library.Sublist" "HOL-Library.Multiset"
begin

section \<open>Values\<close>

text \<open>
  Python numbers. An \<open>int\<close> is unbounded. A \<open>float\<close> is a double: it is modelled by the
  rational it denotes, or it is one of \<open>inf\<close>, \<open>-inf\<close> and NaN (the sign of zero is not
  modelled). \<open>float('inf')\<close> and \<open>float('-inf')\<close> are the initial extremes of the min/max
  scan, and NaN is the missing value of a float column.
\<close>

datatype num = Fin rat | PInf | NInf | NaN

text \<open>
  The values a cell, a schema entry or a report leaf can hold. \<open>PSeries\<close> is a pandas
  Series, given by the list its \<open>tolist()\<close> returns. \<open>NpInt\<close>, \<open>NpFloat\<close> and \<open>NpBool\<close>
  are numpy scalars (\<open>np.integer\<close>, \<open>np.floating\<close>, \<open>np.bool_\<close>); \<open>PTimestamp\<close> and
  \<open>PTimedelta\<close> carry their \<open>str(obj)\<close>; \<open>PNaT\<close> is \<open>pd.NaT\<close>, \<open>PNA\<close> is \<open>pd.NA\<close>;
  \<open>PObj\<close> is any other scalar object (hashable, not a missing value, not list-like)
  that \<open>json.dumps\<close> rejects, such as a date or a complex number, carrying its
  \<open>str(obj)\<close>. Dictionary keys are strings, and a dictionary is the list of its items in
  insertion order.
\<close>

datatype pyval =
    PNone
  | PBool bool
  | PInt int
  | PFloat num
  | PStr string
  | PList "pyval list"
  | PDict "(string \<times> pyval) list"
  | PSeries "pyval list"
  | NpInt int
  | NpFloat num
  | NpBool bool
  | PTimestamp string
  | PTimedelta string
  | PNaT
  | PNA
  | PObj string

type_synonym dict = "(string \<times> pyval) list"

datatype exn = TypeError | AttributeError | KeyError | ValueError | OverflowError

section \<open>The value normalizer\<close>

text \<open>\<open>pd.isna\<close> on a scalar.\<close>

fun isna :: "pyval \<Rightarrow> bool" where
  "isna PNone = True"
| "isna (PFloat NaN) = True"
| "isna (NpFloat NaN) = True"
| "isna PNaT = True"
| "isna PNA = True"
| "isna _ = False"

text \<open>
  \<open>DataChecker._to_json_serializable\<close>, branch by branch in the order of the source:
  dict, list, Series, numpy integer, numpy floating, numpy bool, Timestamp/Timedelta,
  \<open>pd.isna\<close>, and the fallback that keeps what \<open>json.dumps\<close> accepts and turns the
  rest into its string form. (The DataFrame branch is
  \<open>convert_dataframe_to_json_serializable\<close> below: a frame is not a cell value here.)
\<close>

fun to_json_serializable :: "pyval \<Rightarrow> pyval" where
  "to_json_serializable (PDict kvs) =
     PDict (map (\<lambda>(k, v). (k, to_json_serializable v)) kvs)"
| "to_json_serializable (PList xs) = PList (map to_json_serializable xs)"
| "to_json_serializable (PSeries xs) = PList (map to_json_serializable xs)"
| "to_json_serializable (NpInt i) = PInt i"
| "to_json_serializable (NpFloat f) = PFloat f"
| "to_json_serializable (NpBool b) = PBool b"
| "to_json_serializable (PTimestamp s) = PStr s"
| "to_json_serializable (PTimedelta s) = PStr s"
| "to_json_serializable (PObj s) = PStr s"
| "to_json_serializable v = (if isna v then PNone else v)"


section \<open>Python arithmetic, comparison and sets\<close>

text \<open>Results of code that can raise: \<open>Inl\<close> is the exception, \<open>Inr\<close> the value.\<close>

definition ebind :: "exn + 'a \<Rightarrow> ('a \<Rightarrow> exn + 'b) \<Rightarrow> exn + 'b" where
  "ebind m f = (case m of Inl e \<Rightarrow> Inl e | Inr x \<Rightarrow> f x)"

text \<open>The numeric value of an operand; \<open>None\<close> for an operand that is not a number.\<close>

fun as_num :: "pyval \<Rightarrow> num option" where
  "as_num (PBool b) = Some (Fin (if b then 1 else 0))"
| "as_num (PInt i) = Some (Fin (of_int i))"
| "as_num (PFloat f) = Some f"
| "as_num (NpBool b) = Some (Fin (if b then 1 else 0))"
| "as_num (NpInt i) = Some (Fin (of_int i))"
| "as_num (NpFloat f) = Some f"
| "as_num _ = None"

fun num_neg :: "num \<Rightarrow> num" where
  "num_neg (Fin a) = Fin (- a)"
| "num_neg PInf = NInf"
| "num_neg NInf = PInf"
| "num_neg NaN = NaN"

fun num_add :: "num \<Rightarrow> num \<Rightarrow> num" where
  "num_add (Fin a) (Fin b) = Fin (a + b)"
| "num_add NaN _ = NaN"
| "num_add _ NaN = NaN"
| "num_add PInf NInf = NaN"
| "num_add NInf PInf = NaN"
| "num_add PInf _ = PInf"
| "num_add _ PInf = PInf"
| "num_add NInf _ = NInf"
| "num_add _ NInf = NInf"

definition num_sub :: "num \<Rightarrow> num \<Rightarrow> num" where
  "num_sub a b = num_add a (num_neg b)"

fun num_scale :: "rat \<Rightarrow> num \<Rightarrow> num" where
  "num_scale c (Fin a) = Fin (c * a)"
| "num_scale c NaN = NaN"
| "num_scale c PInf = (if c = 0 then NaN else if 0 < c then PInf else NInf)"
| "num_scale c NInf = (if c = 0 then NaN else if 0 < c then NInf else PInf)"

fun num_le :: "num \<Rightarrow> num \<Rightarrow> bool" where
  "num_le NaN _ = False"
| "num_le _ NaN = False"
| "num_le NInf _ = True"
| "num_le _ PInf = True"
| "num_le (Fin a) (Fin b) = (a \<le> b)"
| "num_le _ _ = False"

definition num_lt :: "num \<Rightarrow> num \<Rightarrow> bool" where
  "num_lt a b = (num_le a b \<and> a \<noteq> b)"

text \<open>
  Rounding to double precision. \<open>bit_length\<close> is \<open>int.bit_length\<close>; \<open>floor_log2 q\<close> is
  the integer \<open>k\<close> with \<open>2^k \<le> q < 2^(k+1)\<close> for a positive \<open>q\<close>; \<open>round_to_double q\<close>
  is the multiple of the unit in the last place of \<open>q\<close> (53 significant bits, smallest
  exponent \<open>-1074\<close>) nearest to \<open>q\<close>, the even one of two equally near.
  \<open>overflow_threshold\<close> is \<open>2^1024 - 2^970\<close> written out, halfway between the largest
  double and \<open>2^1024\<close>: from there on rounding overflows.
\<close>

function bit_length :: "int \<Rightarrow> int" where
  "bit_length n = (if n \<le> 0 then 0 else 1 + bit_length (n div 2))"
  by pat_completeness auto
termination
  by (relation "measure nat") auto

declare bit_length.simps [simp del]

definition pow2 :: "int \<Rightarrow> rat" where
  "pow2 e = (if 0 \<le> e then 2 ^ nat e else 1 / 2 ^ nat (- e))"

definition floor_log2 :: "rat \<Rightarrow> int" where
  "floor_log2 q =
     (case quotient_of q of (a, b) \<Rightarrow>
        let k = bit_length a - bit_length b
        in if pow2 k \<le> q then k else k - 1)"

definition round_half_even :: "rat \<Rightarrow> int" where
  "round_half_even x =
     (let n = \<lfloor>x\<rfloor>; d = x - of_int n
      in if d < 1 / 2 then n else if 1 / 2 < d then n + 1 else if even n then n else n + 1)"

definition round_to_double :: "rat \<Rightarrow> rat" where
  "round_to_double q =
     (if q = 0 then 0
      else let e = max (floor_log2 \<bar>q\<bar> - 52) (- 1074)
           in sgn q * of_int (round_half_even (\<bar>q\<bar> / pow2 e)) * pow2 e)"

definition overflow_threshold :: rat where
  "overflow_threshold = 179769313486231580793728971405303415079934132710037826936173778980444968292764750946649017977587207096330286416692887910946555547851940402630657488671505820681908902000708383676273854845817711531764475730270069855571366959622842914819860834936475292719074168444365510704342711559699508093042880177904174497792"

text \<open>
  \<open>fl q\<close> is the float that an arithmetic operation with the exact result \<open>q\<close> returns:
  the nearest double, or an infinity on overflow. \<open>fl_add\<close>, \<open>fl_sub\<close> and \<open>fl_mul_001\<close>
  are \<open>x + y\<close>, \<open>x - y\<close> and \<open>0.01 * x\<close> on floats; \<open>double_001\<close> is the double that
  the literal \<open>0.01\<close> denotes.
\<close>

definition fl :: "rat \<Rightarrow> num" where
  "fl q = (if overflow_threshold \<le> \<bar>q\<bar> then (if 0 < q then PInf else NInf)
           else Fin (round_to_double q))"

definition double_001 :: rat where
  "double_001 = 5764607523034235 / 576460752303423488"

definition fl_add :: "num \<Rightarrow> num \<Rightarrow> num" where
  "fl_add x y = (case num_add x y of Fin q \<Rightarrow> fl q | s \<Rightarrow> s)"

definition fl_sub :: "num \<Rightarrow> num \<Rightarrow> num" where
  "fl_sub x y = (case num_sub x y of Fin q \<Rightarrow> fl q | s \<Rightarrow> s)"

definition fl_mul_001 :: "num \<Rightarrow> num" where
  "fl_mul_001 x = (case num_scale double_001 x of Fin q \<Rightarrow> fl q | s \<Rightarrow> s)"

text \<open>
  \<open>float(i)\<close> for an int, as arithmetic between an int and a float performs it: the
  nearest double, or \<open>OverflowError\<close> when there is none.
\<close>

definition to_float :: "int \<Rightarrow> exn + num" where
  "to_float i = (if overflow_threshold \<le> \<bar>of_int i\<bar> then Inl OverflowError
                 else Inr (Fin (round_to_double (of_int i))))"

text \<open>
  The operands of arithmetic: \<open>int_value\<close> is the value of an operand that is an int (a
  bool is one), \<open>as_float\<close> is the conversion of a numeric operand to float, \<open>None\<close> for
  an operand that is not a number. (Where the checker calls these operations both
  operands are normalized, so numpy scalars do not occur; they are treated like the
  Python number of the same value.)
\<close>

fun int_value :: "pyval \<Rightarrow> int option" where
  "int_value (PBool b) = Some (if b then 1 else 0)"
| "int_value (PInt i) = Some i"
| "int_value (NpBool b) = Some (if b then 1 else 0)"
| "int_value (NpInt i) = Some i"
| "int_value _ = None"

fun as_float :: "pyval \<Rightarrow> (exn + num) option" where
  "as_float (PFloat f) = Some (Inr f)"
| "as_float (NpFloat f) = Some (Inr f)"
| "as_float v = map_option to_float (int_value v)"

text \<open>
  \<open>a + b\<close>, \<open>a - b\<close> and \<open>0.01 * a\<close>, where the checker evaluates them: on normalized
  values, and with a float as the second operand of \<open>+\<close>. Two ints give the exact int.
  Otherwise both operands are converted to float and the result is rounded; an operand
  that is not a number raises \<open>TypeError\<close>, an int too large for a float raises
  \<open>OverflowError\<close>.
\<close>

definition float_operands :: "pyval \<Rightarrow> pyval \<Rightarrow> exn + num \<times> num" where
  "float_operands a b =
     (case (as_float a, as_float b) of
        (Some x, Some y) \<Rightarrow> ebind x (\<lambda>x'. ebind y (\<lambda>y'. Inr (x', y')))
      | _ \<Rightarrow> Inl TypeError)"

definition py_add :: "pyval \<Rightarrow> pyval \<Rightarrow> exn + pyval" where
  "py_add a b =
     (case (int_value a, int_value b) of
        (Some i, Some j) \<Rightarrow> Inr (PInt (i + j))
      | _ \<Rightarrow> ebind (float_operands a b) (\<lambda>(x, y). Inr (PFloat (fl_add x y))))"

definition py_sub :: "pyval \<Rightarrow> pyval \<Rightarrow> exn + pyval" where
  "py_sub a b =
     (case (int_value a, int_value b) of
        (Some i, Some j) \<Rightarrow> Inr (PInt (i - j))
      | _ \<Rightarrow> ebind (float_operands a b) (\<lambda>(x, y). Inr (PFloat (fl_sub x y))))"

definition py_times_001 :: "pyval \<Rightarrow> exn + pyval" where
  "py_times_001 a =
     (case as_float a of
        Some x \<Rightarrow> ebind x (\<lambda>x'. Inr (PFloat (fl_mul_001 x')))
      | None \<Rightarrow> Inl TypeError)"

text \<open>
  \<open>a <= b\<close>: Python compares an int with a float by value, without converting, so the
  comparison is exact and raises only on an operand that is not a number.
\<close>

definition py_le :: "pyval \<Rightarrow> pyval \<Rightarrow> exn + bool" where
  "py_le a b = (case (as_num a, as_num b) of
       (Some x, Some y) \<Rightarrow> Inr (num_le x y) | _ \<Rightarrow> Inl TypeError)"

text \<open>The builtins \<open>min(a, b)\<close> and \<open>max(a, b)\<close>: the first argument unless the second beats it.\<close>

definition py_min :: "pyval \<Rightarrow> pyval \<Rightarrow> exn + pyval" where
  "py_min a b = (case (as_num a, as_num b) of
       (Some x, Some y) \<Rightarrow> Inr (if num_lt y x then b else a) | _ \<Rightarrow> Inl TypeError)"

definition py_max :: "pyval \<Rightarrow> pyval \<Rightarrow> exn + pyval" where
  "py_max a b = (case (as_num a, as_num b) of
       (Some x, Some y) \<Rightarrow> Inr (if num_lt x y then b else a) | _ \<Rightarrow> Inl TypeError)"

text \<open>\<open>a == float(f)\<close> for an infinite \<open>f\<close>.\<close>

definition py_eq_float :: "pyval \<Rightarrow> num \<Rightarrow> bool" where
  "py_eq_float a f = (as_num a = Some f \<and> f \<noteq> NaN)"

text \<open>
  Python's \<open>==\<close> and \<open>hash\<close> identify \<open>True\<close>, \<open>1\<close> and \<open>1.0\<close>; \<open>py_key\<close> is the
  representative a set compares. (A NaN is found again in a set by identity.)
\<close>

fun py_key :: "pyval \<Rightarrow> pyval" where
  "py_key (PBool b) = PFloat (Fin (if b then 1 else 0))"
| "py_key (PInt i) = PFloat (Fin (of_int i))"
| "py_key (NpBool b) = PFloat (Fin (if b then 1 else 0))"
| "py_key (NpInt i) = PFloat (Fin (of_int i))"
| "py_key (NpFloat f) = PFloat f"
| "py_key v = v"

definition py_in :: "pyval \<Rightarrow> pyval list \<Rightarrow> bool" where
  "py_in x s = (py_key x \<in> set (map py_key s))"

fun hashable :: "pyval \<Rightarrow> bool" where
  "hashable (PList _) = False"
| "hashable (PDict _) = False"
| "hashable (PSeries _) = False"
| "hashable _ = True"

text \<open>
  A Python set is the list of its elements, pairwise different under \<open>==\<close>. \<open>set_add\<close> is
  \<open>s.add(x)\<close>, \<open>set_update\<close> is \<open>s.update(xs)\<close>, \<open>set_diff\<close> is \<open>a - b\<close>. Hashing an
  unhashable element raises \<open>TypeError\<close>.
\<close>

definition set_add :: "pyval \<Rightarrow> pyval list \<Rightarrow> pyval list" where
  "set_add x s = (if py_in x s then s else s @ [x])"

definition set_update :: "pyval list \<Rightarrow> pyval list \<Rightarrow> exn + pyval list" where
  "set_update xs s = (if list_all hashable xs then Inr (fold set_add xs s) else Inl TypeError)"

definition set_diff :: "pyval list \<Rightarrow> pyval list \<Rightarrow> pyval list" where
  "set_diff a b = filter (\<lambda>x. \<not> py_in x b) a"

text \<open>
  \<open>set(v)\<close>: the elements of a list or Series, the characters of a string, the keys of a
  dict; anything else is not iterable.
\<close>

fun py_set :: "pyval \<Rightarrow> exn + pyval list" where
  "py_set (PList xs) = set_update xs []"
| "py_set (PSeries xs) = set_update xs []"
| "py_set (PStr s) = set_update (map (\<lambda>c. PStr [c]) s) []"
| "py_set (PDict kvs) = set_update (map (\<lambda>kv. PStr (fst kv)) kvs) []"
| "py_set _ = Inl TypeError"

text \<open>
  The order in which \<open>list(s)\<close> enumerates a set is fixed by the hash table, not by the
  program: it is a parameter of the model, a function that permutes its argument.
\<close>

type_synonym set_order = "pyval list \<Rightarrow> pyval list"

definition is_order :: "set_order \<Rightarrow> bool" where
  "is_order ord = (\<forall>xs. mset (ord xs) = mset xs)"

text \<open>
  \<open>key in v\<close>, \<open>v[key]\<close> and \<open>v.get(key)\<close> for a string key: a dict looks the key up, a
  list holds it or not and has neither string indices nor \<open>get\<close>, a string is searched
  for it as a substring and has neither string indices nor \<open>get\<close>; a Series is indexed
  by row positions, so a string key is not in it. Other values are not containers.
\<close>

fun py_contains :: "string \<Rightarrow> pyval \<Rightarrow> exn + bool" where
  "py_contains k (PDict kvs) = Inr (k \<in> set (map fst kvs))"
| "py_contains k (PList xs) = Inr (py_in (PStr k) xs)"
| "py_contains k (PStr s) = Inr (sublist k s)"
| "py_contains k (PSeries xs) = Inr False"
| "py_contains k _ = Inl TypeError"

fun py_getitem :: "pyval \<Rightarrow> string \<Rightarrow> exn + pyval" where
  "py_getitem (PDict kvs) k = (case map_of kvs k of Some v \<Rightarrow> Inr v | None \<Rightarrow> Inl KeyError)"
| "py_getitem (PSeries xs) k = Inl KeyError"
| "py_getitem _ k = Inl TypeError"

fun py_get :: "pyval \<Rightarrow> string \<Rightarrow> exn + pyval" where
  "py_get (PDict kvs) k = (case map_of kvs k of Some v \<Rightarrow> Inr v | None \<Rightarrow> Inr PNone)"
| "py_get (PSeries xs) k = Inr PNone"
| "py_get _ k = Inl AttributeError"

section \<open>The dataset\<close>

text \<open>
  A DataFrame is the list of its columns in order, each with its name. A column has a
  dtype: \<open>float64\<close> (NaN is its missing value), \<open>int64\<close>, \<open>bool\<close>, or \<open>object\<close> for
  everything else. All columns have the same length; \<open>wf_df\<close> says so, and that no two
  columns bear the same name.
\<close>

datatype column = FloatCol "num list" | IntCol "int list" | BoolCol "bool list" | ObjectCol "pyval list"

type_synonym dataframe = "(string \<times> column) list"

text \<open>
  The cells of a column as \<open>tolist()\<close> gives them: Python scalars for the numeric
  dtypes, the objects themselves for \<open>object\<close>.
\<close>

fun cells :: "column \<Rightarrow> pyval list" where
  "cells (FloatCol xs) = map PFloat xs"
| "cells (IntCol xs) = map PInt xs"
| "cells (BoolCol xs) = map PBool xs"
| "cells (ObjectCol xs) = xs"

definition nrows :: "dataframe \<Rightarrow> nat" where
  "nrows df = (case df of [] \<Rightarrow> 0 | (n, c) # _ \<Rightarrow> length (cells c))"

definition wf_df :: "dataframe \<Rightarrow> bool" where
  "wf_df df = (distinct (map fst df) \<and> list_all (\<lambda>(n, c). length (cells c) = nrows df) df)"

text \<open>\<open>data_df.empty\<close>: no column or no row.\<close>

definition df_empty :: "dataframe \<Rightarrow> bool" where
  "df_empty df = (df = [] \<or> nrows df = 0)"

text \<open>\<open>pd.api.types.is_numeric_dtype\<close>.\<close>

fun is_numeric_dtype :: "column \<Rightarrow> bool" where
  "is_numeric_dtype (ObjectCol _) = False"
| "is_numeric_dtype _ = True"

text \<open>\<open>data_df[col].isnull().all()\<close>.\<close>

definition isnull_all :: "column \<Rightarrow> bool" where
  "isnull_all c = list_all isna (cells c)"

text \<open>
  \<open>data_df[col].dropna().unique().tolist()\<close>: the non-null cells, each value once in order
  of first appearance; \<open>unique\<close> hashes the cells and raises \<open>TypeError\<close> on an unhashable one.
\<close>

definition dropna_unique :: "column \<Rightarrow> exn + pyval list" where
  "dropna_unique c = set_update (filter (\<lambda>v. \<not> isna v) (cells c)) []"

text \<open>
  \<open>Series.min()\<close> and \<open>Series.max()\<close> of a numeric column skip NaN and return a numpy
  scalar, NaN when nothing is left. They are only called on numeric columns.
\<close>

definition num_min :: "num \<Rightarrow> num \<Rightarrow> num" where
  "num_min a b = (if num_le a b then a else b)"

definition num_max :: "num \<Rightarrow> num \<Rightarrow> num" where
  "num_max a b = (if num_le a b then b else a)"

fun series_min :: "column \<Rightarrow> pyval" where
  "series_min (FloatCol xs) =
     (case filter (\<lambda>x. x \<noteq> NaN) xs of [] \<Rightarrow> NpFloat NaN | y # ys \<Rightarrow> NpFloat (fold num_min ys y))"
| "series_min (IntCol xs) = (case xs of [] \<Rightarrow> NpFloat NaN | y # ys \<Rightarrow> NpInt (fold min ys y))"
| "series_min (BoolCol xs) = (case xs of [] \<Rightarrow> NpFloat NaN | y # ys \<Rightarrow> NpBool (fold (\<and>) ys y))"
| "series_min (ObjectCol xs) = PNone"

fun series_max :: "column \<Rightarrow> pyval" where
  "series_max (FloatCol xs) =
     (case filter (\<lambda>x. x \<noteq> NaN) xs of [] \<Rightarrow> NpFloat NaN | y # ys \<Rightarrow> NpFloat (fold num_max ys y))"
| "series_max (IntCol xs) = (case xs of [] \<Rightarrow> NpFloat NaN | y # ys \<Rightarrow> NpInt (fold max ys y))"
| "series_max (BoolCol xs) = (case xs of [] \<Rightarrow> NpFloat NaN | y # ys \<Rightarrow> NpBool (fold (\<or>) ys y))"
| "series_max (ObjectCol xs) = PNone"

text \<open>
  \<open>df.to_dict(orient='records')\<close>: row \<open>i\<close> is \<open>dict(zip(columns, row))\<close>, which maps each
  column name to the column's cell \<open>i\<close> (the last one, for a name borne by several
  columns), with numpy scalars boxed to Python ones. (A cell beyond the end of a
  column, which \<open>wf_df\<close> excludes, reads as NaN.)
\<close>

fun box_native :: "pyval \<Rightarrow> pyval" where
  "box_native (NpInt i) = PInt i"
| "box_native (NpFloat f) = PFloat f"
| "box_native (NpBool b) = PBool b"
| "box_native v = v"

definition cell_at :: "column \<Rightarrow> nat \<Rightarrow> pyval" where
  "cell_at c i = (if i < length (cells c) then cells c ! i else PFloat NaN)"

definition to_dict_records :: "dataframe \<Rightarrow> dict list" where
  "to_dict_records df =
     map (\<lambda>i. fold (\<lambda>(n, c). AList.update n (box_native (cell_at c i))) df []) [0..<nrows df]"

text \<open>\<open>DataChecker._convert_dataframe_to_json_serializable\<close>.\<close>

definition convert_dataframe_to_json_serializable :: "dataframe \<Rightarrow> pyval list" where
  "convert_dataframe_to_json_serializable df =
     map (\<lambda>record. to_json_serializable (PDict record)) (to_dict_records df)"

section \<open>The report\<close>

datatype status = PASS | WARNINGS | FAIL

text \<open>
  The text of a warning is fixed by its template and the values formatted into it; the
  model keeps those instead of the formatted string.
\<close>

datatype warning_text =
    No_data_provided
  | Missing_required "string list"
  | Enum_not_present string "pyval list"
  | Min_not_tested string pyval pyval
  | Max_not_tested string pyval pyval
  | No_numeric_data string

record warning =
  field :: "string option"
  message :: warning_text

record required_cov =
  req_total :: nat
  req_covered :: nat
  req_missing :: "pyval list"

record enum_cov =
  enum_total :: nat
  enum_covered :: nat
  enum_missing :: "pyval list"

record min_max_cov =
  min_constraint :: pyval
  max_constraint :: pyval
  min_data_value :: pyval
  max_data_value :: pyval
  min_boundary_tested :: bool
  max_boundary_tested :: bool

record coverage_summary =
  required_fields_coverage :: required_cov
  enum_coverage :: "(string \<times> enum_cov) list"
  min_max_coverage :: "(string \<times> min_max_cov) list"

record validation_report =
  overall_status :: status
  errors :: "pyval list"
  warnings :: "warning list"
  coverage :: coverage_summary

definition initial_report :: validation_report where
  "initial_report =
     \<lparr>overall_status = PASS, errors = [], warnings = [],
      coverage = \<lparr>required_fields_coverage = \<lparr>req_total = 0, req_covered = 0, req_missing = []\<rparr>,
                  enum_coverage = [], min_max_coverage = []\<rparr>\<rparr>"

section \<open>Pass 1: schema validation\<close>

text \<open>
  \<open>jsonschema.validate\<close> is a library function and a parameter of the model. It returns
  normally, raises one \<open>ValidationError\<close> (with \<open>str(e.path)\<close>, \<open>e.message\<close>,
  \<open>e.validator\<close>, \<open>e.validator_value\<close>, \<open>e.instance\<close>), or raises another exception
  (with \<open>str(e)\<close>).
\<close>

record verror =
  e_path :: string
  e_message :: string
  e_validator :: pyval
  e_validator_value :: pyval
  e_instance :: pyval

datatype vresult = Valid | ValidationError verror | OtherException string

type_synonym validator = "pyval \<Rightarrow> dict \<Rightarrow> vresult"

definition schema_error_entry :: "nat \<Rightarrow> verror \<Rightarrow> pyval" where
  "schema_error_entry i e =
     to_json_serializable (PDict
       [(''row_index'', PInt (int i)), (''path'', PStr (e_path e)), (''message'', PStr (e_message e)),
        (''validator'', e_validator e), (''validator_value'', e_validator_value e),
        (''instance'', e_instance e)])"

definition unexpected_error_entry :: "nat \<Rightarrow> string \<Rightarrow> pyval" where
  "unexpected_error_entry i msg =
     to_json_serializable (PDict
       [(''row_index'', PInt (int i)), (''path'', PStr ''N/A''),
        (''message'', PStr (''Unexpected error during validation: '' @ msg)),
        (''detail'', PStr msg)])"

text \<open>The body of the loop \<open>for i, record in enumerate(data_to_validate)\<close>.\<close>

definition validate_record :: "validator \<Rightarrow> dict \<Rightarrow> nat \<Rightarrow> pyval \<Rightarrow> validation_report \<Rightarrow> validation_report" where
  "validate_record validate schema i record rep =
     (case validate record schema of
        Valid \<Rightarrow> rep
      | ValidationError e \<Rightarrow>
          rep\<lparr>overall_status := FAIL, errors := errors rep @ [schema_error_entry i e]\<rparr>
      | OtherException msg \<Rightarrow>
          rep\<lparr>overall_status := FAIL, errors := errors rep @ [unexpected_error_entry i msg]\<rparr>)"

definition schema_validation :: "validator \<Rightarrow> dict \<Rightarrow> pyval list \<Rightarrow> validation_report \<Rightarrow> validation_report" where
  "schema_validation validate schema data_to_validate rep =
     fold (\<lambda>(i, record). validate_record validate schema i record)
       (enumerate 0 data_to_validate) rep"

section \<open>Pass 2: constraint coverage\<close>

record analysis =
  required_fields_in_schema :: "pyval list"
  present_required_fields :: "pyval list"
  enum_values_in_schema :: "(string \<times> pyval list) list"
  enum_values_in_data :: "(string \<times> pyval list) list"
  min_max_constraints :: "(string \<times> pyval \<times> pyval) list"
  min_max_data_values :: "(string \<times> pyval \<times> pyval) list"

text \<open>
  The body of the loop over \<open>schema['properties'].items()\<close>: its first \<open>if\<close>
  statement, then its second.
\<close>

definition collect_enum :: "string \<Rightarrow> pyval \<Rightarrow> analysis \<Rightarrow> exn + analysis" where
  "collect_enum prop_name prop_details a =
     ebind (py_contains ''enum'' prop_details) (\<lambda>has_enum.
     if has_enum
     then ebind (py_getitem prop_details ''enum'') (\<lambda>enum.
          ebind (py_set (to_json_serializable enum)) (\<lambda>s.
          Inr (a\<lparr>enum_values_in_schema := AList.update prop_name s (enum_values_in_schema a),
                 enum_values_in_data := AList.update prop_name [] (enum_values_in_data a)\<rparr>)))
     else Inr a)"

definition collect_min_max :: "string \<Rightarrow> pyval \<Rightarrow> analysis \<Rightarrow> exn + analysis" where
  "collect_min_max prop_name prop_details a =
     ebind (py_contains ''minimum'' prop_details) (\<lambda>has_min.
     ebind (if has_min then Inr True else py_contains ''maximum'' prop_details) (\<lambda>has_bound.
     if has_bound
     then ebind (py_get prop_details ''minimum'') (\<lambda>mn.
          ebind (py_get prop_details ''maximum'') (\<lambda>mx.
          Inr (a\<lparr>min_max_constraints :=
                   AList.update prop_name (to_json_serializable mn, to_json_serializable mx)
                     (min_max_constraints a),
                 min_max_data_values :=
                   AList.update prop_name (PFloat PInf, PFloat NInf) (min_max_data_values a)\<rparr>)))
     else Inr a))"

definition collect_property :: "string \<Rightarrow> pyval \<Rightarrow> analysis \<Rightarrow> exn + analysis" where
  "collect_property prop_name prop_details a =
     ebind (collect_enum prop_name prop_details a) (collect_min_max prop_name prop_details)"

fun collect_properties :: "dict \<Rightarrow> analysis \<Rightarrow> exn + analysis" where
  "collect_properties [] a = Inr a"
| "collect_properties ((prop_name, prop_details) # rest) a =
     ebind (collect_property prop_name prop_details a) (collect_properties rest)"

text \<open>
  Lines 117 to 141: the required set, then the properties loop when
  \<open>schema['properties']\<close> is a dict.
\<close>

definition collect_constraints :: "dict \<Rightarrow> exn + analysis" where
  "collect_constraints schema =
     ebind (py_set (case map_of schema ''required'' of Some v \<Rightarrow> v | None \<Rightarrow> PList [])) (\<lambda>required.
     let a = \<lparr>required_fields_in_schema = required, present_required_fields = [],
              enum_values_in_schema = [], enum_values_in_data = [],
              min_max_constraints = [], min_max_data_values = []\<rparr>
     in (case map_of schema ''properties'' of
           Some (PDict props) \<Rightarrow> collect_properties props a
         | _ \<Rightarrow> Inr a))"

text \<open>
  The body of the loop \<open>for col in data_df.columns\<close>, first for a name that one column
  bears; \<open>c\<close> is \<open>data_df[col]\<close>.
\<close>

definition scan_required :: "string \<Rightarrow> column \<Rightarrow> analysis \<Rightarrow> analysis" where
  "scan_required col c a =
     (if py_in (PStr col) (required_fields_in_schema a) \<and> \<not> isnull_all c
      then a\<lparr>present_required_fields := set_add (PStr col) (present_required_fields a)\<rparr>
      else a)"

definition scan_enum :: "string \<Rightarrow> column \<Rightarrow> analysis \<Rightarrow> exn + analysis" where
  "scan_enum col c a =
     (if col \<in> set (map fst (enum_values_in_schema a))
      then (case map_of (enum_values_in_data a) col of
              None \<Rightarrow> Inl KeyError
            | Some s \<Rightarrow>
                ebind (dropna_unique c) (\<lambda>vals.
                ebind (set_update (map to_json_serializable vals) s) (\<lambda>s'.
                Inr (a\<lparr>enum_values_in_data := AList.update col s' (enum_values_in_data a)\<rparr>))))
      else Inr a)"

definition scan_min_max :: "string \<Rightarrow> column \<Rightarrow> analysis \<Rightarrow> exn + analysis" where
  "scan_min_max col c a =
     (if col \<in> set (map fst (min_max_constraints a)) \<and> is_numeric_dtype c
      then (if cells c \<noteq> []
            then (case map_of (min_max_data_values a) col of
                    None \<Rightarrow> Inl KeyError
                  | Some (min_data, max_data) \<Rightarrow>
                      ebind (py_min min_data (to_json_serializable (series_min c))) (\<lambda>min_data'.
                      ebind (py_max max_data (to_json_serializable (series_max c))) (\<lambda>max_data'.
                      Inr (a\<lparr>min_max_data_values :=
                               AList.update col (min_data', max_data') (min_max_data_values a)\<rparr>))))
            else Inr a)
      else Inr a)"

text \<open>
  When several columns bear the name \<open>col\<close>, \<open>data_df[col]\<close> is a DataFrame:
  \<open>not frame.isnull().all()\<close> raises \<open>ValueError\<close> (line 145), a frame has no \<open>unique\<close>
  (\<open>AttributeError\<close>, line 150), and \<open>is_numeric_dtype\<close> of a frame is false (line 152).
\<close>

definition duplicated :: "dataframe \<Rightarrow> string \<Rightarrow> bool" where
  "duplicated data_df col = (1 < length (filter (\<lambda>n. n = col) (map fst data_df)))"

definition scan_duplicated :: "string \<Rightarrow> analysis \<Rightarrow> exn + analysis" where
  "scan_duplicated col a =
     (if py_in (PStr col) (required_fields_in_schema a) then Inl ValueError
      else if col \<in> set (map fst (enum_values_in_schema a))
      then (case map_of (enum_values_in_data a) col of
              None \<Rightarrow> Inl KeyError
            | Some s \<Rightarrow> Inl AttributeError)
      else Inr a)"

definition scan_column :: "dataframe \<Rightarrow> string \<Rightarrow> column \<Rightarrow> analysis \<Rightarrow> exn + analysis" where
  "scan_column data_df col c a =
     (if duplicated data_df col then scan_duplicated col a
      else ebind (scan_enum col c (scan_required col c a)) (scan_min_max col c))"

fun scan_columns :: "dataframe \<Rightarrow> dataframe \<Rightarrow> analysis \<Rightarrow> exn + analysis" where
  "scan_columns data_df [] a = Inr a"
| "scan_columns data_df ((col, c) # rest) a =
     ebind (scan_column data_df col c a) (scan_columns data_df rest)"

text \<open>
  Lines 158 to 169. \<open>', '.join(xs)\<close> raises \<open>TypeError\<close> on an item that is not a
  string; \<open>str_items\<close> gives the strings to join, or \<open>None\<close> for that case.
\<close>

fun str_items :: "pyval list \<Rightarrow> string list option" where
  "str_items [] = Some []"
| "str_items (PStr s # rest) = map_option ((#) s) (str_items rest)"
| "str_items (_ # rest) = None"

definition consolidate_required :: "set_order \<Rightarrow> analysis \<Rightarrow> validation_report \<Rightarrow> exn + validation_report" where
  "consolidate_required ord a rep =
     (let missing_required_fields =
            ord (set_diff (required_fields_in_schema a) (present_required_fields a));
          rep1 = rep\<lparr>coverage := (coverage rep)\<lparr>required_fields_coverage :=
                   \<lparr>req_total = length (required_fields_in_schema a),
                    req_covered = length (present_required_fields a),
                    req_missing = missing_required_fields\<rparr>\<rparr>\<rparr>
      in if missing_required_fields \<noteq> []
         then (case str_items missing_required_fields of
                 None \<Rightarrow> Inl TypeError
               | Some names \<Rightarrow>
                   Inr (rep1\<lparr>overall_status := WARNINGS,
                             warnings := warnings rep1 @
                               [\<lparr>field = Some ''N/A'', message = Missing_required names\<rparr>]\<rparr>))
         else Inr rep1)"

text \<open>Lines 172 to 185: the loop over \<open>enum_values_in_schema.items()\<close>.\<close>

definition enum_entry :: "set_order \<Rightarrow> analysis \<Rightarrow> string \<Rightarrow> pyval list \<Rightarrow> validation_report \<Rightarrow> validation_report" where
  "enum_entry ord a fld schema_enums rep =
     (let data_enums = (case map_of (enum_values_in_data a) fld of Some s \<Rightarrow> s | None \<Rightarrow> []);
          missing_enum_values = ord (set_diff schema_enums data_enums);
          rep1 = rep\<lparr>coverage := (coverage rep)\<lparr>enum_coverage :=
                   AList.update fld
                     \<lparr>enum_total = length schema_enums, enum_covered = length data_enums,
                      enum_missing = missing_enum_values\<rparr>
                     (enum_coverage (coverage rep))\<rparr>\<rparr>
      in if missing_enum_values \<noteq> []
         then rep1\<lparr>overall_status := WARNINGS,
                   warnings := warnings rep1 @
                     [\<lparr>field = Some fld, message = Enum_not_present fld missing_enum_values\<rparr>]\<rparr>
         else rep1)"

fun consolidate_enum :: "set_order \<Rightarrow> analysis \<Rightarrow> (string \<times> pyval list) list \<Rightarrow> validation_report \<Rightarrow> validation_report" where
  "consolidate_enum ord a [] rep = rep"
| "consolidate_enum ord a ((fld, schema_enums) # rest) rep =
     consolidate_enum ord a rest (enum_entry ord a fld schema_enums rep)"

text \<open>Lines 188 to 230: the loop over \<open>min_max_constraints.items()\<close>.\<close>

definition tolerance :: "pyval \<Rightarrow> pyval \<Rightarrow> exn + pyval" where
  "tolerance min_constraint_val max_constraint_val =
     (if min_constraint_val \<noteq> PNone \<and> max_constraint_val \<noteq> PNone
      then ebind (py_sub max_constraint_val min_constraint_val) py_times_001
      else Inr (PFloat (Fin double_001)))"

definition min_tested :: "pyval \<Rightarrow> pyval \<Rightarrow> pyval \<Rightarrow> exn + bool" where
  "min_tested min_constraint_val tol min_data_val =
     (if min_constraint_val = PNone then Inr True
      else ebind (py_add min_constraint_val tol) (\<lambda>hi.
           ebind (py_le min_data_val hi) (\<lambda>below.
           if below then ebind (py_sub min_constraint_val tol) (\<lambda>lo. py_le lo min_data_val)
           else Inr False)))"

definition max_tested :: "pyval \<Rightarrow> pyval \<Rightarrow> pyval \<Rightarrow> exn + bool" where
  "max_tested max_constraint_val tol max_data_val =
     (if max_constraint_val = PNone then Inr True
      else ebind (py_sub max_constraint_val tol) (\<lambda>lo.
           ebind (py_le lo max_data_val) (\<lambda>above.
           if above then ebind (py_add max_constraint_val tol) (\<lambda>hi. py_le max_data_val hi)
           else Inr False)))"

definition min_max_entry :: "analysis \<Rightarrow> string \<Rightarrow> pyval \<times> pyval \<Rightarrow> validation_report \<Rightarrow> exn + validation_report" where
  "min_max_entry a fld constraints rep =
     (let min_constraint_val = fst constraints; max_constraint_val = snd constraints in
      case map_of (min_max_data_values a) fld of
        None \<Rightarrow>
          (if min_constraint_val \<noteq> PNone \<or> max_constraint_val \<noteq> PNone then Inl TypeError
           else Inr rep)
      | Some (min_data_val, max_data_val) \<Rightarrow>
          if \<not> py_eq_float min_data_val PInf \<and> \<not> py_eq_float max_data_val NInf
          then ebind (tolerance min_constraint_val max_constraint_val) (\<lambda>tol.
               ebind (min_tested min_constraint_val tol min_data_val) (\<lambda>min_boundary.
               ebind (max_tested max_constraint_val tol max_data_val) (\<lambda>max_boundary.
               let rep1 = rep\<lparr>coverage := (coverage rep)\<lparr>min_max_coverage :=
                            AList.update fld
                              \<lparr>min_constraint = min_constraint_val, max_constraint = max_constraint_val,
                               min_data_value = min_data_val, max_data_value = max_data_val,
                               min_boundary_tested = min_boundary, max_boundary_tested = max_boundary\<rparr>
                              (min_max_coverage (coverage rep))\<rparr>\<rparr>;
                   rep2 = (if min_constraint_val \<noteq> PNone \<and> \<not> min_boundary
                           then rep1\<lparr>overall_status := WARNINGS,
                                     warnings := warnings rep1 @
                                       [\<lparr>field = Some fld,
                                         message = Min_not_tested fld min_constraint_val min_data_val\<rparr>]\<rparr>
                           else rep1);
                   rep3 = (if max_constraint_val \<noteq> PNone \<and> \<not> max_boundary
                           then rep2\<lparr>overall_status := WARNINGS,
                                     warnings := warnings rep2 @
                                       [\<lparr>field = Some fld,
                                         message = Max_not_tested fld max_constraint_val max_data_val\<rparr>]\<rparr>
                           else rep2)
               in Inr rep3)))
          else if (min_constraint_val \<noteq> PNone \<or> max_constraint_val \<noteq> PNone) \<and>
                  (py_eq_float min_data_val PInf \<or> py_eq_float max_data_val NInf)
          then Inr (rep\<lparr>overall_status := WARNINGS,
                         warnings := warnings rep @
                           [\<lparr>field = Some fld, message = No_numeric_data fld\<rparr>]\<rparr>)
          else Inr rep)"

fun consolidate_min_max :: "analysis \<Rightarrow> (string \<times> pyval \<times> pyval) list \<Rightarrow> validation_report \<Rightarrow> exn + validation_report" where
  "consolidate_min_max a [] rep = Inr rep"
| "consolidate_min_max a ((fld, constraints) # rest) rep =
     ebind (min_max_entry a fld constraints rep) (consolidate_min_max a rest)"

section \<open>The report aggregator\<close>

text \<open>
  Line 232: the normalizer run over the assembled report. Strings, counters and flags
  are left as they are; the leaves that can hold data or schema values are normalized.
\<close>

definition normalize_report :: "validation_report \<Rightarrow> validation_report" where
  "normalize_report rep =
     rep\<lparr>errors := map to_json_serializable (errors rep),
         coverage :=
           \<lparr>required_fields_coverage =
              (required_fields_coverage (coverage rep))
                \<lparr>req_missing := map to_json_serializable
                                  (req_missing (required_fields_coverage (coverage rep)))\<rparr>,
            enum_coverage =
              map (\<lambda>(f, e). (f, e\<lparr>enum_missing := map to_json_serializable (enum_missing e)\<rparr>))
                (enum_coverage (coverage rep)),
            min_max_coverage =
              map (\<lambda>(f, m). (f, m\<lparr>min_constraint := to_json_serializable (min_constraint m),
                                    max_constraint := to_json_serializable (max_constraint m),
                                    min_data_value := to_json_serializable (min_data_value m),
                                    max_data_value := to_json_serializable (max_data_value m)\<rparr>))
                (min_max_coverage (coverage rep))\<rparr>\<rparr>"

definition no_data_report :: validation_report where
  "no_data_report =
     initial_report\<lparr>overall_status := WARNINGS,
                    warnings := warnings initial_report @
                      [\<lparr>field = None, message = No_data_provided\<rparr>]\<rparr>"

definition no_schema_report :: validation_report where
  "no_schema_report =
     initial_report\<lparr>overall_status := FAIL,
                    errors := errors initial_report @
                      [PDict [(''message'', PStr ''No schema provided for validation.'')]]\<rparr>"

text \<open>
  \<open>DataChecker.validate_data_against_schema\<close>. Its parameters beside the dataset and the
  schema are the two things the source leaves to its environment: the library validator
  and the enumeration order of sets.
\<close>

definition coverage_checks :: "set_order \<Rightarrow> dataframe \<Rightarrow> dict \<Rightarrow> validation_report \<Rightarrow> exn + validation_report" where
  "coverage_checks ord data_df schema rep =
     ebind (collect_constraints schema) (\<lambda>a0.
     ebind (scan_columns data_df data_df a0) (\<lambda>a.
     ebind (consolidate_required ord a rep) (\<lambda>rep1.
     consolidate_min_max a (min_max_constraints a)
       (consolidate_enum ord a (enum_values_in_schema a) rep1))))"

definition validate_data_against_schema :: "validator \<Rightarrow> set_order \<Rightarrow> dataframe \<Rightarrow> dict option \<Rightarrow> exn + validation_report" where
  "validate_data_against_schema validate ord data_df schema =
     (if df_empty data_df then Inr no_data_report
      else case schema of
        None \<Rightarrow> Inr no_schema_report
      | Some sch \<Rightarrow>
          if sch = [] then Inr no_schema_report
          else
            let data_to_validate = convert_dataframe_to_json_serializable data_df;
                rep = schema_validation validate sch data_to_validate initial_report
            in ebind (coverage_checks ord data_df sch rep) (\<lambda>final. Inr (normalize_report final)))"

section \<open>Example inputs\<close>

text \<open>
  The examples below need a concrete validator. \<open>example_validator\<close> checks the two
  keywords the examples use, \<open>required\<close> at the root and \<open>enum\<close> in a property, and
  reports for them the error that \<open>jsonschema.validate\<close> raises on the examples: the
  library collects every violation and raises the one it ranks best, an error at the
  root of the record before an error inside one of its properties, whatever the order
  of the keywords in the schema.
  \<open>raising_validator\<close> fails on every record with an exception other than
  \<open>ValidationError\<close>, as \<open>jsonschema.validate\<close> does with a \<open>SchemaError\<close> when the
  schema itself is malformed.
\<close>

definition quote :: "string \<Rightarrow> string" where
  "quote s = CHR 0x27 # s @ [CHR 0x27]"

fun join :: "string \<Rightarrow> string list \<Rightarrow> string" where
  "join sep [] = []"
| "join sep [s] = s"
| "join sep (s # rest) = s @ sep @ join sep rest"

fun repr :: "pyval \<Rightarrow> string" where
  "repr (PStr s) = quote s"
| "repr (PList xs) = ''['' @ join '', '' (map repr xs) @ '']''"
| "repr _ = ''...''"

definition required_violation :: "dict \<Rightarrow> dict \<Rightarrow> verror option" where
  "required_violation record schema =
     (case map_of schema ''required'' of
        Some (PList names) \<Rightarrow>
          (case filter (\<lambda>n. \<not> py_in n (map (\<lambda>kv. PStr (fst kv)) record)) names of
             [] \<Rightarrow> None
           | n # _ \<Rightarrow>
               Some \<lparr>e_path = ''deque([])'', e_message = repr n @ '' is a required property'',
                     e_validator = PStr ''required'', e_validator_value = PList names,
                     e_instance = PDict record\<rparr>)
      | _ \<Rightarrow> None)"

fun enum_violation :: "dict \<Rightarrow> dict \<Rightarrow> verror option" where
  "enum_violation record [] = None"
| "enum_violation record ((name, details) # props) =
     (case (map_of record name, py_get details ''enum'') of
        (Some v, Inr (PList allowed)) \<Rightarrow>
          if py_in v allowed then enum_violation record props
          else Some \<lparr>e_path = ''deque(['' @ quote name @ ''])'',
                     e_message = repr v @ '' is not one of '' @ repr (PList allowed),
                     e_validator = PStr ''enum'', e_validator_value = PList allowed,
                     e_instance = v\<rparr>
      | _ \<Rightarrow> enum_violation record props)"

definition example_validator :: validator where
  "example_validator instance schema =
     (case instance of
        PDict record \<Rightarrow>
          (case required_violation record schema of
             Some e \<Rightarrow> ValidationError e
           | None \<Rightarrow>
               (case map_of schema ''properties'' of
                  Some (PDict props) \<Rightarrow>
                    (case enum_violation record props of Some e \<Rightarrow> ValidationError e | None \<Rightarrow> Valid)
                | _ \<Rightarrow> Valid))
      | _ \<Rightarrow> Valid)"

definition raising_validator :: validator where
  "raising_validator instance schema = OtherException ''boom''"

section \<open>Reading the report\<close>

text \<open>
  What one pass of the loop body adds to \<open>errors\<close> for record \<open>i\<close>; the row an error
  entry belongs to; and the validator kind of an entry, read as the report exporter
  reads it (\<open>error.get('validator', 'N/A')\<close>).
\<close>

definition record_errors :: "validator \<Rightarrow> dict \<Rightarrow> nat \<Rightarrow> pyval \<Rightarrow> pyval list" where
  "record_errors validate schema i record =
     (case validate record schema of
        Valid \<Rightarrow> []
      | ValidationError e \<Rightarrow> [schema_error_entry i e]
      | OtherException msg \<Rightarrow> [unexpected_error_entry i msg])"

fun row_index_of :: "pyval \<Rightarrow> pyval option" where
  "row_index_of (PDict kvs) = map_of kvs ''row_index''"
| "row_index_of _ = None"

definition at_row :: "nat \<Rightarrow> pyval \<Rightarrow> bool" where
  "at_row i e = (row_index_of e = Some (PInt (int i)))"

fun validator_kind :: "pyval \<Rightarrow> pyval" where
  "validator_kind (PDict kvs) = (case map_of kvs ''validator'' of Some v \<Rightarrow> v | None \<Rightarrow> PStr ''N/A'')"
| "validator_kind _ = PStr ''N/A''"


text \<open>
  A value in plain JSON form: \<open>None\<close>, a bool, an int, a float other than NaN, a string,
  or a list or dict of such values; no numpy scalar, Series, timestamp, missing-value
  marker or other object.
\<close>

fun json_plain :: "pyval \<Rightarrow> bool" where
  "json_plain PNone = True"
| "json_plain (PBool b) = True"
| "json_plain (PInt i) = True"
| "json_plain (PFloat f) = (f \<noteq> NaN)"
| "json_plain (PStr s) = True"
| "json_plain (PList xs) = list_all json_plain xs"
| "json_plain (PDict kvs) = list_all (\<lambda>(k, v). json_plain v) kvs"
| "json_plain _ = False"

definition status_df :: dataframe where
  "status_df = [(''status'', ObjectCol [PStr ''x'', PStr ''q''])]"

text \<open>
  A warning about missing required fields; and whether a field holds a non-null value
  in some record of the dataset.
\<close>

definition is_required_warning :: "warning \<Rightarrow> bool" where
  "is_required_warning w = (case message w of Missing_required _ \<Rightarrow> True | _ \<Rightarrow> False)"

definition has_value :: "dataframe \<Rightarrow> string \<Rightarrow> bool" where
  "has_value df name =
     list_ex (\<lambda>record. list_ex (\<lambda>(k, v). k = name \<and> \<not> isna v) record) (to_dict_records df)"

definition required_df :: dataframe where
  "required_df = [(''a'', IntCol [1, 2]), (''b'', FloatCol [NaN, NaN]), (''c'', ObjectCol [PNone, PNone])]"

definition required_schema :: dict where
  "required_schema = [(''required'', PList (map PStr [''a'', ''b'', ''c'']))]"



definition band :: "pyval \<Rightarrow> num \<Rightarrow> (num \<times> num) option" where
  "band bound t =
     (case as_float bound of
        Some (Inr b) \<Rightarrow> Some (fl_sub b t, fl_add b t)
      | _ \<Rightarrow> None)"


definition column_values :: "column \<Rightarrow> num list" where
  "column_values c = filter (\<lambda>v. v \<noteq> NaN) (List.map_filter as_num (cells c))"

definition score_schema :: dict where
  "score_schema =
     [(''properties'', PDict [(''score'', PDict [(''minimum'', PInt 0), (''maximum'', PInt 100)])])]"



definition score_df_interior :: dataframe where
  "score_df_interior = [(''score'', IntCol [10, 90])]"


definition minimum_schema :: "int \<Rightarrow> dict" where
  "minimum_schema n = [(''properties'', PDict [(''score'', PDict [(''minimum'', PInt n)])])]"










definition two_rows_df :: dataframe where
  "two_rows_df = [(''a'', IntCol [1, 2])]"

definition status_schema :: dict where
  "status_schema = [(''properties'', PDict [(''status'', PDict [(''enum'', PList [PStr ''x''])])])]"

definition status_id_schema :: dict where
  "status_id_schema =
     [(''properties'', PDict [(''status'', PDict [(''enum'', PList [PStr ''x''])])]),
      (''required'', PList [PStr ''id''])]"

section \<open>The normalizer is not idempotent\<close>

text \<open>
  C8. The normalizer is meant to be idempotent. It is not at a numpy NaN: the
  \<open>np.floating\<close> branch comes before the \<open>pd.isna\<close> branch, so \<open>np.float64('nan')\<close>
  becomes the Python float NaN, and only a second pass turns that into \<open>None\<close>.
\<close>

theorem to_json_serializable_not_idempotent:
  "to_json_serializable (NpFloat NaN) = PFloat NaN \<and>
   to_json_serializable (to_json_serializable (NpFloat NaN)) = PNone \<and>
   to_json_serializable (to_json_serializable (NpFloat NaN)) \<noteq> to_json_serializable (NpFloat NaN)"
  by simp


section \<open>Fatal preconditions\<close>

text \<open>
  C6. An empty dataset returns at once with status WARNINGS, the single warning that
  no data was provided and zeroed coverage; a non-empty dataset with a missing or empty
  schema returns at once with status FAIL, the single error that no schema was
  provided and zeroed coverage. Neither result depends on the validator or on the
  order of sets: no pass has run.
\<close>

theorem short_circuit_reports:
  "(df_empty df \<longrightarrow>
      validate_data_against_schema validate ord df schema =
        Inr \<lparr>overall_status = WARNINGS, errors = [],
             warnings = [\<lparr>field = None, message = No_data_provided\<rparr>],
             coverage = \<lparr>required_fields_coverage = \<lparr>req_total = 0, req_covered = 0, req_missing = []\<rparr>,
                         enum_coverage = [], min_max_coverage = []\<rparr>\<rparr>) \<and>
   (\<not> df_empty df \<and> (schema = None \<or> schema = Some []) \<longrightarrow>
      validate_data_against_schema validate ord df schema =
        Inr \<lparr>overall_status = FAIL,
             errors = [PDict [(''message'', PStr ''No schema provided for validation.'')]],
             warnings = [],
             coverage = \<lparr>required_fields_coverage = \<lparr>req_total = 0, req_covered = 0, req_missing = []\<rparr>,
                         enum_coverage = [], min_max_coverage = []\<rparr>\<rparr>)"
  by (auto simp: validate_data_against_schema_def no_data_report_def no_schema_report_def
        initial_report_def)

theorem short_circuit_reports_witness:
  "df_empty [] \<and> \<not> df_empty [(''a'', IntCol [1])] \<and>
   validate_data_against_schema example_validator id [] (Some [(''required'', PList [PStr ''b''])]) =
        Inr \<lparr>overall_status = WARNINGS, errors = [],
             warnings = [\<lparr>field = None, message = No_data_provided\<rparr>],
             coverage = \<lparr>required_fields_coverage = \<lparr>req_total = 0, req_covered = 0, req_missing = []\<rparr>,
                         enum_coverage = [], min_max_coverage = []\<rparr>\<rparr> \<and>
   validate_data_against_schema example_validator id [(''a'', IntCol [1])] (Some []) =
        Inr \<lparr>overall_status = FAIL,
             errors = [PDict [(''message'', PStr ''No schema provided for validation.'')]],
             warnings = [],
             coverage = \<lparr>required_fields_coverage = \<lparr>req_total = 0, req_covered = 0, req_missing = []\<rparr>,
                         enum_coverage = [], min_max_coverage = []\<rparr>\<rparr>"
proof -
  have e: "df_empty []" by (simp add: df_empty_def)
  have n: "\<not> df_empty [(''a'', IntCol [1])]" by (simp add: df_empty_def nrows_def)
  show ?thesis
    using e n
      short_circuit_reports [of "[]" example_validator id "Some [(''required'', PList [PStr ''b''])]"]
      short_circuit_reports [of "[(''a'', IntCol [1])]" example_validator id "Some []"]
    by simp
qed

text \<open>
  C10. With an empty dataset and, at the same time, a missing or empty schema, the
  result is the empty-dataset report (WARNINGS, the no-data warning, no error), not the
  missing-schema report: the dataset is tested first.
\<close>

theorem empty_dataset_checked_first:
  "df_empty df \<Longrightarrow> schema = None \<or> schema = Some [] \<Longrightarrow>
   validate_data_against_schema validate ord df schema =
     Inr \<lparr>overall_status = WARNINGS, errors = [],
          warnings = [\<lparr>field = None, message = No_data_provided\<rparr>],
          coverage = \<lparr>required_fields_coverage = \<lparr>req_total = 0, req_covered = 0, req_missing = []\<rparr>,
                      enum_coverage = [], min_max_coverage = []\<rparr>\<rparr> \<and>
   validate_data_against_schema validate ord df schema \<noteq> Inr no_schema_report"
  by (auto simp: validate_data_against_schema_def no_data_report_def no_schema_report_def
        initial_report_def)

theorem empty_dataset_checked_first_witness:
  "df_empty [] \<and>
   validate_data_against_schema example_validator id [] None =
     Inr \<lparr>overall_status = WARNINGS, errors = [],
          warnings = [\<lparr>field = None, message = No_data_provided\<rparr>],
          coverage = \<lparr>required_fields_coverage = \<lparr>req_total = 0, req_covered = 0, req_missing = []\<rparr>,
                      enum_coverage = [], min_max_coverage = []\<rparr>\<rparr>"
proof -
  have e: "df_empty []" by (simp add: df_empty_def)
  show ?thesis
    using e empty_dataset_checked_first [OF e, of None example_validator id] by simp
qed

section \<open>Status precedence\<close>

text \<open>
  C1. The status is meant to be FAIL whenever an error was recorded. It is not: the
  coverage pass assigns WARNINGS unconditionally (lines 165, 181, 212, 218, 226), also
  over the FAIL that pass 1 assigned. For the one-row dataset \<open>a = [1]\<close> and the schema
  \<open>{"required": ["b"]}\<close>, row 0 fails validation (an error is recorded, status FAIL),
  then the missing required field \<open>b\<close> moves the status back to WARNINGS: the report
  holds one error and one warning, and its status is WARNINGS.
\<close>

theorem status_downgraded_by_coverage_warning:
  "validate_data_against_schema example_validator id [(''a'', IntCol [1])]
     (Some [(''required'', PList [PStr ''b''])]) =
   Inr \<lparr>overall_status = WARNINGS,
        errors =
          [PDict [(''row_index'', PInt 0), (''path'', PStr ''deque([])''),
                  (''message'', PStr (quote ''b'' @ '' is a required property'')),
                  (''validator'', PStr ''required''),
                  (''validator_value'', PList [PStr ''b'']),
                  (''instance'', PDict [(''a'', PInt 1)])]],
        warnings = [\<lparr>field = Some ''N/A'', message = Missing_required [''b'']\<rparr>],
        coverage = \<lparr>required_fields_coverage =
                      \<lparr>req_total = 1, req_covered = 0, req_missing = [PStr ''b'']\<rparr>,
                    enum_coverage = [], min_max_coverage = []\<rparr>\<rparr>"
  by code_simp

section \<open>Enum coverage\<close>

text \<open>
  C2. \<open>covered\<close> is meant to count the declared enum values that the data holds. The
  code stores \<open>len(data_enums)\<close>, the number of distinct values observed, whether
  declared or not (line 177). For the column \<open>status = ['x', 'q']\<close> and the declared enum
  \<open>['x']\<close>, one declared value is observed, yet the entry says \<open>covered = 2\<close> of
  \<open>total = 1\<close>.
\<close>

theorem enum_covered_counts_undeclared_values:
  "validate_data_against_schema example_validator id
     [(''status'', ObjectCol [PStr ''x'', PStr ''q''])]
     (Some [(''properties'', PDict [(''status'', PDict [(''enum'', PList [PStr ''x''])])])]) =
   Inr \<lparr>overall_status = FAIL,
        errors =
          [PDict [(''row_index'', PInt 1), (''path'', PStr (''deque(['' @ quote ''status'' @ ''])'')),
                  (''message'', PStr (quote ''q'' @ '' is not one of ['' @ quote ''x'' @ '']'')),
                  (''validator'', PStr ''enum''),
                  (''validator_value'', PList [PStr ''x'']),
                  (''instance'', PStr ''q'')]],
        warnings = [],
        coverage = \<lparr>required_fields_coverage = \<lparr>req_total = 0, req_covered = 0, req_missing = []\<rparr>,
                    enum_coverage =
                      [(''status'', \<lparr>enum_total = 1, enum_covered = 2, enum_missing = []\<rparr>)],
                    min_max_coverage = []\<rparr>\<rparr>"
  by code_simp

section \<open>Pass 1 records one entry per failing record\<close>

lemma validate_record_errors:
  "errors (validate_record v s i r rep) = errors rep @ record_errors v s i r"
  by (simp add: validate_record_def record_errors_def split: vresult.splits)

lemma validate_record_frame:
  "warnings (validate_record v s i r rep) = warnings rep"
  "coverage (validate_record v s i r rep) = coverage rep"
  by (simp_all add: validate_record_def split: vresult.splits)

lemma fold_validate_record_errors:
  "errors (fold (\<lambda>(i, record). validate_record v s i record) ps rep) =
     errors rep @ concat (map (\<lambda>(i, r). record_errors v s i r) ps)"
  by (induction ps arbitrary: rep) (auto simp: validate_record_errors)

lemma fold_validate_record_frame:
  "warnings (fold (\<lambda>(i, record). validate_record v s i record) ps rep) = warnings rep"
  "coverage (fold (\<lambda>(i, record). validate_record v s i record) ps rep) = coverage rep"
  by (induction ps arbitrary: rep) (auto simp: validate_record_frame)

lemma schema_validation_errors:
  "errors (schema_validation v s rs rep) =
     errors rep @ concat (map (\<lambda>(i, r). record_errors v s i r) (enumerate 0 rs))"
  by (simp add: schema_validation_def fold_validate_record_errors)

lemma schema_validation_frame:
  "warnings (schema_validation v s rs rep) = warnings rep"
  "coverage (schema_validation v s rs rep) = coverage rep"
  by (simp_all add: schema_validation_def fold_validate_record_frame)

lemma record_errors_at_row:
  "e \<in> set (record_errors v s k r) \<Longrightarrow> at_row i (to_json_serializable e) = (i = k)"
  by (auto simp: record_errors_def at_row_def schema_error_entry_def unexpected_error_entry_def
      split: vresult.splits)

lemma filter_other_rows:
  "i \<notin> fst ` set ps \<Longrightarrow>
   filter (at_row i) (map to_json_serializable (concat (map (\<lambda>(k, r). record_errors v s k r) ps))) = []"
  by (induction ps) (auto simp: filter_empty_conv record_errors_at_row)

lemma filter_this_row:
  "distinct (map fst ps) \<Longrightarrow> (i, r) \<in> set ps \<Longrightarrow>
   filter (at_row i) (map to_json_serializable (concat (map (\<lambda>(k, r). record_errors v s k r) ps))) =
     map to_json_serializable (record_errors v s i r)"
proof (induction ps)
  case Nil
  then show ?case by simp
next
  case (Cons p ps)
  obtain k r' where p: "p = (k, r')" by (cases p)
  show ?case
  proof (cases "k = i")
    case True
    with Cons.prems p have r: "r' = r" and notin: "i \<notin> fst ` set ps"
      by (auto simp: image_iff)
    have "filter (at_row i) (map to_json_serializable (record_errors v s i r)) =
            map to_json_serializable (record_errors v s i r)"
      by (simp add: filter_id_conv record_errors_at_row)
    then show ?thesis
      using filter_other_rows [OF notin, of v s] by (simp add: p True r)
  next
    case False
    with Cons.prems p have mem: "(i, r) \<in> set ps" and d: "distinct (map fst ps)"
      by auto
    have "filter (at_row i) (map to_json_serializable (record_errors v s k r')) = []"
      using False by (simp add: filter_empty_conv record_errors_at_row)
    then show ?thesis
      using Cons.IH [OF d mem] by (simp add: p)
  qed
qed



lemma ebind_Inr: "ebind m f = Inr y \<Longrightarrow> \<exists>x. m = Inr x \<and> f x = Inr y"
  by (cases m) (simp_all add: ebind_def)

lemma consolidate_required_errors:
  "consolidate_required ord a rep = Inr rep' \<Longrightarrow> errors rep' = errors rep"
  by (auto simp: consolidate_required_def Let_def split: if_splits option.splits)

lemma enum_entry_errors: "errors (enum_entry ord a f se rep) = errors rep"
  by (simp add: enum_entry_def Let_def)

lemma consolidate_enum_errors: "errors (consolidate_enum ord a es rep) = errors rep"
  by (induction es arbitrary: rep) (auto simp: enum_entry_errors)

lemma min_max_entry_errors:
  "min_max_entry a f cs rep = Inr rep' \<Longrightarrow> errors rep' = errors rep"
  by (auto simp: min_max_entry_def Let_def split: option.splits if_splits dest!: ebind_Inr)

lemma consolidate_min_max_errors:
  "consolidate_min_max a cs rep = Inr rep' \<Longrightarrow> errors rep' = errors rep"
proof (induction cs arbitrary: rep)
  case Nil
  then show ?case by simp
next
  case (Cons c cs)
  obtain f x where c: "c = (f, x)" by (cases c)
  from Cons.prems obtain r1 where 1: "min_max_entry a f x rep = Inr r1"
    and 2: "consolidate_min_max a cs r1 = Inr rep'"
    by (auto simp: c dest!: ebind_Inr)
  show ?case using Cons.IH [OF 2] min_max_entry_errors [OF 1] by simp
qed

lemma run_decompose:
  assumes "validate_data_against_schema v ord df (Some sch) = Inr rep" "\<not> df_empty df" "sch \<noteq> []"
  obtains a0 a rep1 final where
    "collect_constraints sch = Inr a0"
    "scan_columns df df a0 = Inr a"
    "consolidate_required ord a
       (schema_validation v sch (convert_dataframe_to_json_serializable df) initial_report) = Inr rep1"
    "consolidate_min_max a (min_max_constraints a) (consolidate_enum ord a (enum_values_in_schema a) rep1) = Inr final"
    "rep = normalize_report final"
  using assms
  by (auto simp: validate_data_against_schema_def coverage_checks_def Let_def dest!: ebind_Inr)

lemma run_errors:
  assumes "validate_data_against_schema v ord df (Some sch) = Inr rep" "\<not> df_empty df" "sch \<noteq> []"
  shows "errors rep = map to_json_serializable
     (concat (map (\<lambda>(k, r). record_errors v sch k r)
        (enumerate 0 (convert_dataframe_to_json_serializable df))))"
proof -
  from assms obtain a0 a rep1 final where
    3: "consolidate_required ord a
       (schema_validation v sch (convert_dataframe_to_json_serializable df) initial_report) = Inr rep1"
    and 4: "consolidate_min_max a (min_max_constraints a) (consolidate_enum ord a (enum_values_in_schema a) rep1) = Inr final"
    and 5: "rep = normalize_report final"
    by (rule run_decompose)
  have "errors final = errors (schema_validation v sch (convert_dataframe_to_json_serializable df) initial_report)"
    using consolidate_min_max_errors [OF 4] consolidate_required_errors [OF 3]
    by (simp add: consolidate_enum_errors)
  then show ?thesis
    by (simp add: 5 normalize_report_def schema_validation_errors initial_report_def)
qed

lemma length_records: "length (convert_dataframe_to_json_serializable df) = nrows df"
  by (simp add: convert_dataframe_to_json_serializable_def to_dict_records_def)

lemma run_errors_at_row:
  assumes "validate_data_against_schema v ord df (Some sch) = Inr rep" "\<not> df_empty df" "sch \<noteq> []"
    and "i < nrows df"
  shows "filter (at_row i) (errors rep) =
     map to_json_serializable
       (record_errors v sch i (convert_dataframe_to_json_serializable df ! i))"
proof -
  let ?rs = "convert_dataframe_to_json_serializable df"
  have d: "distinct (map fst (enumerate 0 ?rs))" by simp
  have m: "(i, ?rs ! i) \<in> set (enumerate 0 ?rs)"
    using assms(4) by (simp add: in_set_enumerate_eq length_records)
  show ?thesis
    using filter_this_row [OF d m, of v sch] run_errors [OF assms(1-3)] by simp
qed


lemma isna_float [simp]: "isna (PFloat f) = (f = NaN)" "isna (NpFloat f) = (f = NaN)"
  by (cases f; simp)+

lemma json_plain_normalized: "json_plain (to_json_serializable (to_json_serializable v))"
  by (induction v rule: to_json_serializable.induct) (auto simp: list_all_iff)

lemma record_errors_plain:
  "list_all json_plain (map to_json_serializable (record_errors v s i r))"
  by (simp add: record_errors_def schema_error_entry_def unexpected_error_entry_def
      json_plain_normalized split: vresult.splits)

text \<open>
  C5, as stated, fails in one point: the error recorded for a record is not the first
  schema rule it violates. \<open>jsonschema.validate\<close> does not stop at a violation; it
  collects all of them and raises the one it ranks best, a violation at the root of the
  record before one inside a property. With the column \<open>status = ['x', 'q']\<close> and the
  schema \<open>{"properties": {"status": {"enum": ["x"]}}, "required": ["id"]}\<close>, record 1
  violates the \<open>enum\<close> of \<open>status\<close>, the first rule of the schema, and the \<open>required\<close>
  that follows it; the one entry recorded for record 1 is the \<open>required\<close> one.
\<close>

theorem recorded_error_is_not_first_violation:
  "validate_data_against_schema example_validator id status_df (Some status_id_schema) =
     Inr \<lparr>overall_status = WARNINGS,
          errors =
            [PDict [(''row_index'', PInt 0), (''path'', PStr ''deque([])''),
                    (''message'', PStr (quote ''id'' @ '' is a required property'')),
                    (''validator'', PStr ''required''),
                    (''validator_value'', PList [PStr ''id'']),
                    (''instance'', PDict [(''status'', PStr ''x'')])],
             PDict [(''row_index'', PInt 1), (''path'', PStr ''deque([])''),
                    (''message'', PStr (quote ''id'' @ '' is a required property'')),
                    (''validator'', PStr ''required''),
                    (''validator_value'', PList [PStr ''id'']),
                    (''instance'', PDict [(''status'', PStr ''q'')])]],
          warnings = [\<lparr>field = Some ''N/A'', message = Missing_required [''id'']\<rparr>],
          coverage = \<lparr>required_fields_coverage =
                        \<lparr>req_total = 1, req_covered = 0, req_missing = [PStr ''id'']\<rparr>,
                      enum_coverage =
                        [(''status'', \<lparr>enum_total = 1, enum_covered = 2, enum_missing = []\<rparr>)],
                      min_max_coverage = []\<rparr>\<rparr> \<and>
   map fst status_id_schema = [''properties'', ''required''] \<and>
   enum_violation [(''status'', PStr ''q'')] [(''status'', PDict [(''enum'', PList [PStr ''x''])])] =
     Some \<lparr>e_path = ''deque(['' @ quote ''status'' @ ''])'',
           e_message = quote ''q'' @ '' is not one of ['' @ quote ''x'' @ '']'',
           e_validator = PStr ''enum'', e_validator_value = PList [PStr ''x''],
           e_instance = PStr ''q''\<rparr>"
  by code_simp

text \<open>
  C5, amended. For every record \<open>i\<close> of the dataset, at most one error is recorded: none
  when the record validates, and when the validator raises a \<open>ValidationError\<close> exactly
  the entry with this record's index as \<open>row_index\<close> and that error's path, message,
  validator kind, validator value and instance, the last three normalized (once when
  the entry is built, once more with the whole report). Whatever the validator
  reports, the entry is in plain JSON form. This holds for every index, so validation
  goes on with the next record after a failing one. Which violation the error
  describes is the validator's choice.
\<close>

theorem one_error_per_record:
  "validate_data_against_schema validate ord df (Some sch) = Inr rep \<Longrightarrow>
   \<not> df_empty df \<Longrightarrow> sch \<noteq> [] \<Longrightarrow> i < nrows df \<Longrightarrow>
   record = convert_dataframe_to_json_serializable df ! i \<Longrightarrow>
   length (filter (at_row i) (errors rep)) \<le> 1 \<and>
   list_all json_plain (filter (at_row i) (errors rep)) \<and>
   (validate record sch = Valid \<longrightarrow> filter (at_row i) (errors rep) = []) \<and>
   (\<forall>e. validate record sch = ValidationError e \<longrightarrow>
      filter (at_row i) (errors rep) =
        [PDict [(''row_index'', PInt (int i)), (''path'', PStr (e_path e)),
                (''message'', PStr (e_message e)),
                (''validator'', to_json_serializable (to_json_serializable (e_validator e))),
                (''validator_value'', to_json_serializable (to_json_serializable (e_validator_value e))),
                (''instance'', to_json_serializable (to_json_serializable (e_instance e)))]])"
proof -
  assume run: "validate_data_against_schema validate ord df (Some sch) = Inr rep"
    and ne: "\<not> df_empty df" "sch \<noteq> []" and i: "i < nrows df"
    and r: "record = convert_dataframe_to_json_serializable df ! i"
  have eq: "filter (at_row i) (errors rep) =
          map to_json_serializable (record_errors validate sch i record)"
    using run_errors_at_row [OF run ne i] r by simp
  have "list_all json_plain (filter (at_row i) (errors rep))"
    unfolding eq by (rule record_errors_plain)
  moreover have "length (filter (at_row i) (errors rep)) \<le> 1 \<and>
   (validate record sch = Valid \<longrightarrow> filter (at_row i) (errors rep) = []) \<and>
   (\<forall>e. validate record sch = ValidationError e \<longrightarrow>
      filter (at_row i) (errors rep) =
        [PDict [(''row_index'', PInt (int i)), (''path'', PStr (e_path e)),
                (''message'', PStr (e_message e)),
                (''validator'', to_json_serializable (to_json_serializable (e_validator e))),
                (''validator_value'', to_json_serializable (to_json_serializable (e_validator_value e))),
                (''instance'', to_json_serializable (to_json_serializable (e_instance e)))]])"
    using eq by (auto simp: record_errors_def schema_error_entry_def split: vresult.splits)
  ultimately show ?thesis by blast
qed

theorem one_error_per_record_witness:
  "validate_data_against_schema example_validator id status_df (Some status_schema) =
     Inr \<lparr>overall_status = FAIL,
          errors =
            [PDict [(''row_index'', PInt 1), (''path'', PStr (''deque(['' @ quote ''status'' @ ''])'')),
                    (''message'', PStr (quote ''q'' @ '' is not one of ['' @ quote ''x'' @ '']'')),
                    (''validator'', PStr ''enum''),
                    (''validator_value'', PList [PStr ''x'']),
                    (''instance'', PStr ''q'')]],
          warnings = [],
          coverage = \<lparr>required_fields_coverage = \<lparr>req_total = 0, req_covered = 0, req_missing = []\<rparr>,
                      enum_coverage =
                        [(''status'', \<lparr>enum_total = 1, enum_covered = 2, enum_missing = []\<rparr>)],
                      min_max_coverage = []\<rparr>\<rparr> \<and>
   \<not> df_empty status_df \<and> status_schema \<noteq> [] \<and> 1 < nrows status_df \<and>
   example_validator (convert_dataframe_to_json_serializable status_df ! 1) status_schema =
     ValidationError
       \<lparr>e_path = ''deque(['' @ quote ''status'' @ ''])'',
        e_message = quote ''q'' @ '' is not one of ['' @ quote ''x'' @ '']'',
        e_validator = PStr ''enum'', e_validator_value = PList [PStr ''x''],
        e_instance = PStr ''q''\<rparr> \<and>
   length (filter (at_row 1)
     [PDict [(''row_index'', PInt 1), (''path'', PStr (''deque(['' @ quote ''status'' @ ''])'')),
             (''message'', PStr (quote ''q'' @ '' is not one of ['' @ quote ''x'' @ '']'')),
             (''validator'', PStr ''enum''),
             (''validator_value'', PList [PStr ''x'']),
             (''instance'', PStr ''q'')]]) \<le> 1 \<and>
   list_all json_plain (filter (at_row 1)
     [PDict [(''row_index'', PInt 1), (''path'', PStr (''deque(['' @ quote ''status'' @ ''])'')),
             (''message'', PStr (quote ''q'' @ '' is not one of ['' @ quote ''x'' @ '']'')),
             (''validator'', PStr ''enum''),
             (''validator_value'', PList [PStr ''x'']),
             (''instance'', PStr ''q'')]])"
proof -
  let ?rep = "\<lparr>overall_status = FAIL,
          errors =
            [PDict [(''row_index'', PInt 1), (''path'', PStr (''deque(['' @ quote ''status'' @ ''])'')),
                    (''message'', PStr (quote ''q'' @ '' is not one of ['' @ quote ''x'' @ '']'')),
                    (''validator'', PStr ''enum''),
                    (''validator_value'', PList [PStr ''x'']),
                    (''instance'', PStr ''q'')]],
          warnings = [],
          coverage = \<lparr>required_fields_coverage = \<lparr>req_total = 0, req_covered = 0, req_missing = []\<rparr>,
                      enum_coverage =
                        [(''status'', \<lparr>enum_total = 1, enum_covered = 2, enum_missing = []\<rparr>)],
                      min_max_coverage = []\<rparr>\<rparr>"
  have run: "validate_data_against_schema example_validator id status_df (Some status_schema) = Inr ?rep"
    by code_simp
  have ne: "\<not> df_empty status_df" "status_schema \<noteq> []"
    by (simp_all add: df_empty_def nrows_def status_df_def status_schema_def)
  have i: "1 < nrows status_df"
    by (simp add: nrows_def status_df_def)
  have v: "example_validator (convert_dataframe_to_json_serializable status_df ! 1) status_schema =
     ValidationError
       \<lparr>e_path = ''deque(['' @ quote ''status'' @ ''])'',
        e_message = quote ''q'' @ '' is not one of ['' @ quote ''x'' @ '']'',
        e_validator = PStr ''enum'', e_validator_value = PList [PStr ''x''],
        e_instance = PStr ''q''\<rparr>"
    by code_simp
  show ?thesis
    using run ne i v one_error_per_record [OF run ne i refl] by simp
qed

section \<open>Unexpected exceptions in pass 1\<close>

text \<open>
  C4, as stated, fails: the entry recorded for an unexpected exception has the keys
  \<open>row_index\<close>, \<open>path\<close>, \<open>message\<close> and \<open>detail\<close> (lines 106 to 111) and no validator
  kind at all, so its validator kind is not \<open>exception\<close>.
\<close>

theorem unexpected_exception_has_no_validator_kind:
  "validate_data_against_schema raising_validator id [(''a'', IntCol [1, 2])]
     (Some [(''type'', PStr ''objekt'')]) =
   Inr \<lparr>overall_status = FAIL,
        errors =
          [PDict [(''row_index'', PInt 0), (''path'', PStr ''N/A''),
                  (''message'', PStr ''Unexpected error during validation: boom''),
                  (''detail'', PStr ''boom'')],
           PDict [(''row_index'', PInt 1), (''path'', PStr ''N/A''),
                  (''message'', PStr ''Unexpected error during validation: boom''),
                  (''detail'', PStr ''boom'')]],
        warnings = [],
        coverage = \<lparr>required_fields_coverage = \<lparr>req_total = 0, req_covered = 0, req_missing = []\<rparr>,
                    enum_coverage = [], min_max_coverage = []\<rparr>\<rparr> \<and>
   validator_kind
     (PDict [(''row_index'', PInt 0), (''path'', PStr ''N/A''),
             (''message'', PStr ''Unexpected error during validation: boom''),
             (''detail'', PStr ''boom'')]) \<noteq> PStr ''exception''"
  by code_simp

text \<open>
  C4, amended. When the validator raises an exception other than \<open>ValidationError\<close> on
  record \<open>i\<close>, exactly one entry is recorded for that record: its \<open>row_index\<close> is \<open>i\<close>,
  its \<open>path\<close> is \<open>N/A\<close>, its \<open>message\<close> is the exception's message after the prefix
  \<open>Unexpected error during validation: \<close>, and its \<open>detail\<close> is the exception's message.
  Every other record of the dataset is still validated: a record has no entry exactly
  when it validates.
\<close>

theorem unexpected_exception_recorded:
  "validate_data_against_schema validate ord df (Some sch) = Inr rep \<Longrightarrow>
   \<not> df_empty df \<Longrightarrow> sch \<noteq> [] \<Longrightarrow> i < nrows df \<Longrightarrow>
   validate (convert_dataframe_to_json_serializable df ! i) sch = OtherException msg \<Longrightarrow>
   filter (at_row i) (errors rep) =
     [PDict [(''row_index'', PInt (int i)), (''path'', PStr ''N/A''),
             (''message'', PStr (''Unexpected error during validation: '' @ msg)),
             (''detail'', PStr msg)]] \<and>
   (\<forall>j<nrows df.
      (filter (at_row j) (errors rep) = []) =
      (validate (convert_dataframe_to_json_serializable df ! j) sch = Valid))"
proof -
  assume run: "validate_data_against_schema validate ord df (Some sch) = Inr rep"
    and ne: "\<not> df_empty df" "sch \<noteq> []" and i: "i < nrows df"
    and v: "validate (convert_dataframe_to_json_serializable df ! i) sch = OtherException msg"
  have rows: "filter (at_row j) (errors rep) =
      map to_json_serializable
        (record_errors validate sch j (convert_dataframe_to_json_serializable df ! j))"
    if "j < nrows df" for j
    using run_errors_at_row [OF run ne that] .
  have "filter (at_row i) (errors rep) =
     [PDict [(''row_index'', PInt (int i)), (''path'', PStr ''N/A''),
             (''message'', PStr (''Unexpected error during validation: '' @ msg)),
             (''detail'', PStr msg)]]"
    using rows [OF i] v by (simp add: record_errors_def unexpected_error_entry_def)
  moreover have "(filter (at_row j) (errors rep) = []) =
      (validate (convert_dataframe_to_json_serializable df ! j) sch = Valid)"
    if "j < nrows df" for j
    using rows [OF that] by (simp add: record_errors_def split: vresult.splits)
  ultimately show ?thesis by blast
qed

theorem unexpected_exception_recorded_witness:
  "validate_data_against_schema raising_validator id two_rows_df (Some [(''type'', PStr ''objekt'')]) =
   Inr \<lparr>overall_status = FAIL,
        errors =
          [PDict [(''row_index'', PInt 0), (''path'', PStr ''N/A''),
                  (''message'', PStr ''Unexpected error during validation: boom''),
                  (''detail'', PStr ''boom'')],
           PDict [(''row_index'', PInt 1), (''path'', PStr ''N/A''),
                  (''message'', PStr ''Unexpected error during validation: boom''),
                  (''detail'', PStr ''boom'')]],
        warnings = [],
        coverage = \<lparr>required_fields_coverage = \<lparr>req_total = 0, req_covered = 0, req_missing = []\<rparr>,
                    enum_coverage = [], min_max_coverage = []\<rparr>\<rparr> \<and>
   \<not> df_empty two_rows_df \<and> 0 < nrows two_rows_df \<and>
   raising_validator (convert_dataframe_to_json_serializable two_rows_df ! 0) [(''type'', PStr ''objekt'')] =
     OtherException ''boom'' \<and>
   filter (at_row 0)
     [PDict [(''row_index'', PInt 0), (''path'', PStr ''N/A''),
                  (''message'', PStr ''Unexpected error during validation: boom''),
                  (''detail'', PStr ''boom'')],
           PDict [(''row_index'', PInt 1), (''path'', PStr ''N/A''),
                  (''message'', PStr ''Unexpected error during validation: boom''),
                  (''detail'', PStr ''boom'')]] =
     [PDict [(''row_index'', PInt 0), (''path'', PStr ''N/A''),
             (''message'', PStr ''Unexpected error during validation: boom''),
             (''detail'', PStr ''boom'')]]"
proof -
  let ?rep = "\<lparr>overall_status = FAIL,
        errors =
          [PDict [(''row_index'', PInt 0), (''path'', PStr ''N/A''),
                  (''message'', PStr ''Unexpected error during validation: boom''),
                  (''detail'', PStr ''boom'')],
           PDict [(''row_index'', PInt 1), (''path'', PStr ''N/A''),
                  (''message'', PStr ''Unexpected error during validation: boom''),
                  (''detail'', PStr ''boom'')]],
        warnings = [],
        coverage = \<lparr>required_fields_coverage = \<lparr>req_total = 0, req_covered = 0, req_missing = []\<rparr>,
                    enum_coverage = [], min_max_coverage = []\<rparr>\<rparr>"
  have run: "validate_data_against_schema raising_validator id two_rows_df (Some [(''type'', PStr ''objekt'')]) = Inr ?rep"
    by code_simp
  have ne: "\<not> df_empty two_rows_df" "[(''type'', PStr ''objekt'')] \<noteq> []"
    by (simp_all add: df_empty_def nrows_def two_rows_df_def)
  have i: "0 < nrows two_rows_df"
    by (simp add: nrows_def two_rows_df_def)
  have v: "raising_validator (convert_dataframe_to_json_serializable two_rows_df ! 0) [(''type'', PStr ''objekt'')] =
     OtherException ''boom''"
    by (simp add: raising_validator_def)
  show ?thesis
    using run ne i v unexpected_exception_recorded [OF run ne i v] by simp
qed


section \<open>Required-field coverage\<close>

text \<open>sets of strings\<close>

lemma py_in_str: "set s \<subseteq> range PStr \<Longrightarrow> py_in (PStr x) s = (PStr x \<in> set s)"
proof -
  assume "set s \<subseteq> range PStr"
  then have "map py_key s = s"
    by (induction s) auto
  then show ?thesis by (simp add: py_in_def)
qed

lemma set_add_str:
  "set s \<subseteq> range PStr \<Longrightarrow>
   set_add (PStr x) s = (if PStr x \<in> set s then s else s @ [PStr x])"
  by (simp add: set_add_def py_in_str)

lemma fold_set_add_str:
  "set s \<subseteq> range PStr \<Longrightarrow> distinct s \<Longrightarrow>
   set (fold set_add (map PStr names) s) = set s \<union> PStr ` set names \<and>
   distinct (fold set_add (map PStr names) s)"
proof (induction names arbitrary: s)
  case Nil
  then show ?case by simp
next
  case (Cons n names)
  let ?s = "set_add (PStr n) s"
  have s: "set ?s \<subseteq> range PStr" "distinct ?s" "set ?s = insert (PStr n) (set s)"
    using Cons.prems by (auto simp: set_add_str)
  show ?case
    using Cons.IH [OF s(1,2)] s(3) by auto
qed

lemma py_set_names:
  "\<exists>req. py_set (PList (map PStr names)) = Inr req \<and> set req = PStr ` set names \<and> distinct req"
proof -
  have "list_all hashable (map PStr names)"
    by (induction names) auto
  then show ?thesis
    using fold_set_add_str [of "[]" names] by (simp add: set_update_def)
qed

lemma set_diff_str:
  "set b \<subseteq> range PStr \<Longrightarrow> set a \<subseteq> range PStr \<Longrightarrow>
   set (set_diff a b) = set a - set b \<and> (distinct a \<longrightarrow> distinct (set_diff a b))"
proof -
  assume b: "set b \<subseteq> range PStr" and a: "set a \<subseteq> range PStr"
  have "filter (\<lambda>x. \<not> py_in x b) a = filter (\<lambda>x. x \<notin> set b) a"
    using a b by (intro filter_cong) (auto simp: py_in_str)
  then show ?thesis by (auto simp: set_diff_def)
qed

lemma str_items_map: "str_items (map PStr names) = Some names"
  by (induction names) auto

lemma str_list_ex: "set xs \<subseteq> range PStr \<Longrightarrow> \<exists>names. xs = map PStr names"
proof (induction xs)
  case Nil
  then show ?case by simp
next
  case (Cons x xs)
  then obtain names n where "xs = map PStr names" "x = PStr n" by auto
  then have "x # xs = map PStr (n # names)" by simp
  then show ?case by (rule exI [of _ "n # names"])
qed

text \<open>scan keeps the required set and grows the covered set\<close>

lemma not_duplicated: "distinct (map fst d) \<Longrightarrow> \<not> duplicated d col"
proof -
  have "distinct xs \<Longrightarrow> length (filter (\<lambda>n. n = col) xs) \<le> 1" for xs :: "string list"
    by (induction xs) (auto simp: filter_empty_conv)
  then show "distinct (map fst d) \<Longrightarrow> \<not> duplicated d col"
    by (fastforce simp: duplicated_def)
qed

lemma scan_columns_step:
  "scan_columns d ((col, c) # rest) a = Inr a' \<Longrightarrow> distinct (map fst d) \<Longrightarrow>
   \<exists>a1 a2. scan_enum col c (scan_required col c a) = Inr a1 \<and> scan_min_max col c a1 = Inr a2 \<and>
     scan_columns d rest a2 = Inr a'"
  by (auto simp: scan_column_def not_duplicated dest!: ebind_Inr)

lemma scan_required_frame:
  "required_fields_in_schema (scan_required col c a) = required_fields_in_schema a"
  by (simp add: scan_required_def)

lemma scan_enum_frame:
  "scan_enum col c a = Inr a' \<Longrightarrow>
   required_fields_in_schema a' = required_fields_in_schema a \<and>
   present_required_fields a' = present_required_fields a"
  by (auto simp: scan_enum_def split: if_splits option.splits dest!: ebind_Inr)

lemma scan_min_max_frame:
  "scan_min_max col c a = Inr a' \<Longrightarrow>
   required_fields_in_schema a' = required_fields_in_schema a \<and>
   present_required_fields a' = present_required_fields a"
  by (auto simp: scan_min_max_def split: if_splits option.splits dest!: ebind_Inr)

lemma scan_columns_required:
  "scan_columns d df a = Inr a' \<Longrightarrow>
   set (required_fields_in_schema a) \<subseteq> range PStr \<Longrightarrow>
   set (present_required_fields a) \<subseteq> range PStr \<Longrightarrow> distinct (present_required_fields a) \<Longrightarrow>
   distinct (map fst d) \<Longrightarrow>
   required_fields_in_schema a' = required_fields_in_schema a \<and>
   distinct (present_required_fields a') \<and>
   set (present_required_fields a') =
     set (present_required_fields a) \<union>
     {PStr col | col c. (col, c) \<in> set df \<and> PStr col \<in> set (required_fields_in_schema a) \<and> \<not> isnull_all c}"
proof (induction df arbitrary: a)
  case Nil
  then show ?case by simp
next
  case (Cons p df)
  obtain col c where p: "p = (col, c)" by (cases p)
  from Cons.prems(1) obtain a1 a2 where
    1: "scan_enum col c (scan_required col c a) = Inr a1" and
    2: "scan_min_max col c a1 = Inr a2" and
    3: "scan_columns d df a2 = Inr a'"
    using scan_columns_step [OF Cons.prems(1) [unfolded p] Cons.prems(5)] by blast
  let ?b = "scan_required col c a"
  have req: "required_fields_in_schema a2 = required_fields_in_schema a"
    using scan_enum_frame [OF 1] scan_min_max_frame [OF 2] by (simp add: scan_required_frame)
  have pres: "present_required_fields a2 = present_required_fields ?b"
    using scan_enum_frame [OF 1] scan_min_max_frame [OF 2] by simp
  have b: "set (present_required_fields ?b) \<subseteq> range PStr" "distinct (present_required_fields ?b)"
    "set (present_required_fields ?b) = set (present_required_fields a) \<union>
       (if PStr col \<in> set (required_fields_in_schema a) \<and> \<not> isnull_all c then {PStr col} else {})"
    using Cons.prems(2-4) by (auto simp: scan_required_def set_add_str py_in_str)
  have ih: "required_fields_in_schema a' = required_fields_in_schema a2 \<and>
     distinct (present_required_fields a') \<and>
     set (present_required_fields a') =
       set (present_required_fields a2) \<union>
       {PStr col | col c. (col, c) \<in> set df \<and> PStr col \<in> set (required_fields_in_schema a2) \<and> \<not> isnull_all c}"
    using Cons.IH [OF 3] Cons.prems(2,5) b(1,2) by (simp add: req pres)
  show ?case
    using ih b(3) by (auto simp: req pres p)
qed


text \<open>the later phases leave the required coverage and the required warning alone\<close>

lemma enum_entry_required:
  "required_fields_coverage (coverage (enum_entry ord a f se rep)) = required_fields_coverage (coverage rep)"
  "filter is_required_warning (warnings (enum_entry ord a f se rep)) = filter is_required_warning (warnings rep)"
  by (simp_all add: enum_entry_def Let_def is_required_warning_def)

lemma consolidate_enum_required:
  "required_fields_coverage (coverage (consolidate_enum ord a es rep)) = required_fields_coverage (coverage rep)"
  "filter is_required_warning (warnings (consolidate_enum ord a es rep)) = filter is_required_warning (warnings rep)"
  by (induction es arbitrary: rep) (auto simp: enum_entry_required)

lemma min_max_entry_required:
  "min_max_entry a f cs rep = Inr rep' \<Longrightarrow>
   required_fields_coverage (coverage rep') = required_fields_coverage (coverage rep) \<and>
   filter is_required_warning (warnings rep') = filter is_required_warning (warnings rep)"
  by (auto simp: min_max_entry_def Let_def is_required_warning_def
      split: option.splits if_splits dest!: ebind_Inr)

lemma consolidate_min_max_required:
  "consolidate_min_max a cs rep = Inr rep' \<Longrightarrow>
   required_fields_coverage (coverage rep') = required_fields_coverage (coverage rep) \<and>
   filter is_required_warning (warnings rep') = filter is_required_warning (warnings rep)"
proof (induction cs arbitrary: rep)
  case Nil
  then show ?case by simp
next
  case (Cons c cs)
  obtain f x where c: "c = (f, x)" by (cases c)
  from Cons.prems obtain r1 where 1: "min_max_entry a f x rep = Inr r1"
    and 2: "consolidate_min_max a cs r1 = Inr rep'"
    by (auto simp: c dest!: ebind_Inr)
  show ?case using Cons.IH [OF 2] min_max_entry_required [OF 1] by simp
qed

lemma collect_property_required:
  "collect_property n d a = Inr a' \<Longrightarrow>
   required_fields_in_schema a' = required_fields_in_schema a \<and>
   present_required_fields a' = present_required_fields a"
  by (auto simp: collect_property_def collect_enum_def collect_min_max_def
      split: if_splits dest!: ebind_Inr)

lemma collect_properties_required:
  "collect_properties props a = Inr a' \<Longrightarrow>
   required_fields_in_schema a' = required_fields_in_schema a \<and>
   present_required_fields a' = present_required_fields a"
proof (induction props arbitrary: a)
  case Nil
  then show ?case by simp
next
  case (Cons p props)
  obtain n d where p: "p = (n, d)" by (cases p)
  from Cons.prems obtain a1 where 1: "collect_property n d a = Inr a1"
    and 2: "collect_properties props a1 = Inr a'"
    by (auto simp: p dest!: ebind_Inr)
  show ?case using Cons.IH [OF 2] collect_property_required [OF 1] by simp
qed

lemma collect_constraints_required:
  assumes "collect_constraints sch = Inr a0" "map_of sch ''required'' = Some (PList (map PStr names))"
  shows "set (required_fields_in_schema a0) = PStr ` set names"
    "distinct (required_fields_in_schema a0)" "present_required_fields a0 = []"
proof -
  obtain req where req: "py_set (PList (map PStr names)) = Inr req" "set req = PStr ` set names" "distinct req"
    using py_set_names by blast
  let ?a = "\<lparr>required_fields_in_schema = req, present_required_fields = [],
              enum_values_in_schema = [], enum_values_in_data = [],
              min_max_constraints = [], min_max_data_values = []\<rparr>"
  have "a0 = ?a \<or> (\<exists>props. collect_properties props ?a = Inr a0)"
    using assms req(1)
    by (auto simp: collect_constraints_def ebind_def Let_def split: option.splits pyval.splits)
  then have "required_fields_in_schema a0 = req \<and> present_required_fields a0 = []"
    using collect_properties_required by fastforce
  with req show "set (required_fields_in_schema a0) = PStr ` set names"
    "distinct (required_fields_in_schema a0)" "present_required_fields a0 = []"
    by simp_all
qed

text \<open>columns and records\<close>

lemma update_absent: "k \<notin> fst ` set al \<Longrightarrow> AList.update k v al = al @ [(k, v)]"
  by (induction al) auto

lemma fold_update_distinct:
  "distinct (map fst df) \<Longrightarrow> fst ` set acc \<inter> fst ` set df = {} \<Longrightarrow>
   fold (\<lambda>(n, c). AList.update n (g c)) df acc = acc @ map (\<lambda>(n, c). (n, g c)) df"
proof (induction df arbitrary: acc)
  case Nil
  then show ?case by simp
next
  case (Cons p df)
  obtain n c where p: "p = (n, c)" by (cases p)
  have n: "n \<notin> fst ` set acc" and d: "distinct (map fst df)"
    and disj: "fst ` set (acc @ [(n, g c)]) \<inter> fst ` set df = {}"
    using Cons.prems p by auto
  show ?case
    using Cons.IH [OF d disj] by (simp add: p update_absent [OF n])
qed

lemma fold_update_records:
  "distinct (map fst df) \<Longrightarrow>
   fold (\<lambda>(n, c). AList.update n (g c)) df [] = map (\<lambda>(n, c). (n, g c)) df"
  using fold_update_distinct [of df "[]" g] by simp

lemma isna_box_native: "isna (box_native v) = isna v"
  by (cases v) simp_all

lemma has_value_column:
  assumes "wf_df df"
  shows "has_value df name = (\<exists>c. (name, c) \<in> set df \<and> \<not> isnull_all c)"
proof -
  have len: "length (cells c) = nrows df" if "(n, c) \<in> set df" for n c
    using assms that by (auto simp: wf_df_def list_all_iff)
  have d: "distinct (map fst df)"
    using assms by (simp add: wf_df_def)
  have recs: "to_dict_records df =
      map (\<lambda>i. map (\<lambda>(n, c). (n, box_native (cell_at c i))) df) [0..<nrows df]"
    by (simp add: to_dict_records_def fold_update_records [OF d])
  have "has_value df name =
     (\<exists>i<nrows df. \<exists>c. (name, c) \<in> set df \<and> \<not> isna (cell_at c i))"
  proof
    assume "has_value df name"
    then obtain i p where "i < nrows df" "p \<in> set df"
      "fst p = name" "\<not> isna (cell_at (snd p) i)"
      by (auto simp: has_value_def recs list_ex_iff isna_box_native split: prod.splits)
    then show "\<exists>i<nrows df. \<exists>c. (name, c) \<in> set df \<and> \<not> isna (cell_at c i)"
      by (cases p) auto
  next
    assume "\<exists>i<nrows df. \<exists>c. (name, c) \<in> set df \<and> \<not> isna (cell_at c i)"
    then obtain i c where "i < nrows df" "(name, c) \<in> set df" "\<not> isna (cell_at c i)"
      by blast
    then show "has_value df name"
      unfolding has_value_def recs list_ex_iff
      by (intro bexI [of _ "map (\<lambda>(n, c). (n, box_native (cell_at c i))) df"]
            bexI [of _ "(name, box_native (cell_at c i))"])
         (auto simp: image_iff isna_box_native intro: bexI [of _ "(name, c)"])
  qed
  also have "\<dots> = (\<exists>c. (name, c) \<in> set df \<and> (\<exists>i<length (cells c). \<not> isna (cells c ! i)))"
    using len by (auto simp: cell_at_def)
  also have "\<dots> = (\<exists>c. (name, c) \<in> set df \<and> \<not> isnull_all c)"
    by (simp add: isnull_all_def list_all_length)
  finally show ?thesis .
qed


lemma consolidate_required_result:
  assumes run: "consolidate_required ord a rep = Inr rep1" and ord: "is_order ord"
    and req: "set (required_fields_in_schema a) \<subseteq> range PStr" "distinct (required_fields_in_schema a)"
    and pres: "set (present_required_fields a) \<subseteq> range PStr"
  shows "\<exists>missing.
     required_fields_coverage (coverage rep1) =
       \<lparr>req_total = length (required_fields_in_schema a),
        req_covered = length (present_required_fields a),
        req_missing = map PStr missing\<rparr> \<and>
     distinct missing \<and>
     PStr ` set missing = set (required_fields_in_schema a) - set (present_required_fields a) \<and>
     warnings rep1 = warnings rep @
       (if missing = [] then [] else [\<lparr>field = Some ''N/A'', message = Missing_required missing\<rparr>])"
proof -
  let ?d = "set_diff (required_fields_in_schema a) (present_required_fields a)"
  have m: "mset (ord ?d) = mset ?d"
    using ord by (simp add: is_order_def)
  have d: "set ?d = set (required_fields_in_schema a) - set (present_required_fields a)" "distinct ?d"
    using set_diff_str [OF pres req(1)] req(2) by simp_all
  have s: "set (ord ?d) = set ?d" and dist: "distinct (ord ?d)"
    using m d(2) mset_eq_setD mset_eq_imp_distinct_iff by blast+
  have "set (ord ?d) \<subseteq> range PStr"
    using s d(1) req(1) by auto
  then obtain missing where missing: "ord ?d = map PStr missing"
    using str_list_ex by blast
  have "distinct missing"
    using dist by (simp add: missing distinct_map)
  moreover have "PStr ` set missing = set (required_fields_in_schema a) - set (present_required_fields a)"
    using s d(1) by (simp add: missing)
  moreover have "required_fields_coverage (coverage rep1) =
       \<lparr>req_total = length (required_fields_in_schema a),
        req_covered = length (present_required_fields a),
        req_missing = map PStr missing\<rparr> \<and>
     warnings rep1 = warnings rep @
       (if missing = [] then [] else [\<lparr>field = Some ''N/A'', message = Missing_required missing\<rparr>])"
    using run by (auto simp: consolidate_required_def missing str_items_map)
  ultimately show ?thesis by blast
qed

text \<open>
  C9, as stated, fails in one point: \<open>missing\<close> is \<open>list(required - present)\<close>, a set
  difference enumerated in the order of the set, not of the schema. CPython enumerates
  a set of strings in hash order, which changes from run to run; with the reversed
  order, the required names \<open>a, b, c\<close> of which \<open>b\<close> and \<open>c\<close> are entirely null are
  reported as \<open>c, b\<close>.
\<close>

theorem missing_required_not_in_declaration_order:
  "is_order rev \<and>
   validate_data_against_schema example_validator rev required_df (Some required_schema) =
     Inr \<lparr>overall_status = WARNINGS, errors = [],
          warnings = [\<lparr>field = Some ''N/A'', message = Missing_required [''c'', ''b'']\<rparr>],
          coverage = \<lparr>required_fields_coverage =
                        \<lparr>req_total = 3, req_covered = 1, req_missing = [PStr ''c'', PStr ''b'']\<rparr>,
                      enum_coverage = [], min_max_coverage = []\<rparr>\<rparr>"
proof -
  have "is_order rev" by (simp add: is_order_def)
  moreover have "validate_data_against_schema example_validator rev required_df (Some required_schema) =
     Inr \<lparr>overall_status = WARNINGS, errors = [],
          warnings = [\<lparr>field = Some ''N/A'', message = Missing_required [''c'', ''b'']\<rparr>],
          coverage = \<lparr>required_fields_coverage =
                        \<lparr>req_total = 3, req_covered = 1, req_missing = [PStr ''c'', PStr ''b'']\<rparr>,
                      enum_coverage = [], min_max_coverage = []\<rparr>\<rparr>"
    by code_simp
  ultimately show ?thesis by simp
qed

text \<open>
  C9, amended. For a non-empty dataset and a schema whose \<open>required\<close> is a list of names:
  \<open>total\<close> is the number of distinct required names, \<open>covered\<close> is the number of those
  with a non-null value in some record, \<open>missing\<close> lists each required name without such
  a value exactly once, in no particular order, and the report holds exactly one
  warning about missing required fields, naming all of them, when there are any, and
  none otherwise.
\<close>

theorem required_coverage:
  assumes run: "validate_data_against_schema validate ord df (Some sch) = Inr rep"
    and ne: "\<not> df_empty df" and wf: "wf_df df" and ord: "is_order ord"
    and required: "map_of sch ''required'' = Some (PList (map PStr names))"
  shows "\<exists>missing.
     required_fields_coverage (coverage rep) =
       \<lparr>req_total = length (remdups names),
        req_covered = length (filter (has_value df) (remdups names)),
        req_missing = map PStr missing\<rparr> \<and>
     distinct missing \<and>
     set missing = {n \<in> set names. \<not> has_value df n} \<and>
     filter is_required_warning (warnings rep) =
       (if missing = [] then [] else [\<lparr>field = Some ''N/A'', message = Missing_required missing\<rparr>])"
proof -
  have "sch \<noteq> []" using required by auto
  with run ne obtain a0 a rep1 final where
    1: "collect_constraints sch = Inr a0" and
    2: "scan_columns df df a0 = Inr a" and
    3: "consolidate_required ord a
       (schema_validation validate sch (convert_dataframe_to_json_serializable df) initial_report) = Inr rep1" and
    4: "consolidate_min_max a (min_max_constraints a) (consolidate_enum ord a (enum_values_in_schema a) rep1) = Inr final" and
    5: "rep = normalize_report final"
    by (rule run_decompose)
  note a0 = collect_constraints_required [OF 1 required]
  have req0: "set (required_fields_in_schema a0) \<subseteq> range PStr"
    using a0(1) by auto
  have scan: "required_fields_in_schema a = required_fields_in_schema a0"
    "distinct (present_required_fields a)"
    "set (present_required_fields a) =
       {PStr col | col c. (col, c) \<in> set df \<and> PStr col \<in> set (required_fields_in_schema a0) \<and> \<not> isnull_all c}"
    using scan_columns_required [OF 2 req0] a0(3) wf by (simp_all add: wf_df_def)
  have pres: "set (present_required_fields a) = PStr ` {n \<in> set names. has_value df n}"
    using has_value_column [OF wf] by (auto simp: scan(3) a0(1))
  have total: "length (required_fields_in_schema a) = length (remdups names)"
  proof -
    have "length (required_fields_in_schema a) = card (PStr ` set names)"
      using a0(1,2) distinct_card by (fastforce simp: scan(1))
    also have "\<dots> = card (set names)"
      by (simp add: card_image inj_on_def)
    finally show ?thesis by (simp add: length_remdups_card_conv)
  qed
  have covered: "length (present_required_fields a) = length (filter (has_value df) (remdups names))"
  proof -
    have "length (present_required_fields a) = card (PStr ` {n \<in> set names. has_value df n})"
      using scan(2) pres distinct_card by fastforce
    also have "\<dots> = card {n \<in> set names. has_value df n}"
      by (simp add: card_image inj_on_def)
    also have "\<dots> = length (filter (has_value df) (remdups names))"
      using distinct_card [of "filter (has_value df) (remdups names)"] by simp
    finally show ?thesis .
  qed
  have "set (present_required_fields a) \<subseteq> range PStr"
    using pres by auto
  with consolidate_required_result [OF 3 ord] req0 a0(2) scan(1)
  obtain missing where missing:
    "required_fields_coverage (coverage rep1) =
       \<lparr>req_total = length (required_fields_in_schema a),
        req_covered = length (present_required_fields a),
        req_missing = map PStr missing\<rparr>"
    "distinct missing"
    "PStr ` set missing = set (required_fields_in_schema a) - set (present_required_fields a)"
    "warnings rep1 =
       warnings (schema_validation validate sch (convert_dataframe_to_json_serializable df) initial_report) @
       (if missing = [] then [] else [\<lparr>field = Some ''N/A'', message = Missing_required missing\<rparr>])"
    by auto
  have "PStr ` set missing = PStr ` {n \<in> set names. \<not> has_value df n}"
    using missing(3) by (auto simp: scan(1) a0(1) pres)
  then have set_missing: "set missing = {n \<in> set names. \<not> has_value df n}"
    by (simp add: inj_image_eq_iff inj_on_def)
  have w1: "filter is_required_warning (warnings rep1) =
      (if missing = [] then [] else [\<lparr>field = Some ''N/A'', message = Missing_required missing\<rparr>])"
    by (simp add: missing(4) schema_validation_frame initial_report_def is_required_warning_def)
  have fin: "required_fields_coverage (coverage final) = required_fields_coverage (coverage rep1)"
    "filter is_required_warning (warnings final) = filter is_required_warning (warnings rep1)"
    using consolidate_min_max_required [OF 4] by (simp_all add: consolidate_enum_required)
  have norm: "map to_json_serializable (map PStr missing) = map PStr missing"
    by (induction missing) auto
  have "required_fields_coverage (coverage rep) =
       \<lparr>req_total = length (remdups names),
        req_covered = length (filter (has_value df) (remdups names)),
        req_missing = map PStr missing\<rparr>"
    using norm by (simp add: 5 normalize_report_def fin(1) missing(1) total covered)
  moreover have "filter is_required_warning (warnings rep) =
       (if missing = [] then [] else [\<lparr>field = Some ''N/A'', message = Missing_required missing\<rparr>])"
    using w1 fin(2) by (simp add: 5 normalize_report_def)
  ultimately show ?thesis
    using missing(2) set_missing by blast
qed


theorem required_coverage_witness:
  "validate_data_against_schema example_validator id required_df (Some required_schema) =
     Inr \<lparr>overall_status = WARNINGS, errors = [],
          warnings = [\<lparr>field = Some ''N/A'', message = Missing_required [''b'', ''c'']\<rparr>],
          coverage = \<lparr>required_fields_coverage =
                        \<lparr>req_total = 3, req_covered = 1, req_missing = [PStr ''b'', PStr ''c'']\<rparr>,
                      enum_coverage = [], min_max_coverage = []\<rparr>\<rparr> \<and>
   \<not> df_empty required_df \<and> wf_df required_df \<and> is_order id \<and>
   map_of required_schema ''required'' = Some (PList (map PStr [''a'', ''b'', ''c''])) \<and>
   has_value required_df ''a'' \<and> \<not> has_value required_df ''b'' \<and> \<not> has_value required_df ''c'' \<and>
   filter is_required_warning [\<lparr>field = Some ''N/A'', message = Missing_required [''b'', ''c'']\<rparr>] =
     [\<lparr>field = Some ''N/A'', message = Missing_required [''b'', ''c'']\<rparr>]"
proof -
  let ?rep = "\<lparr>overall_status = WARNINGS, errors = [],
          warnings = [\<lparr>field = Some ''N/A'', message = Missing_required [''b'', ''c'']\<rparr>],
          coverage = \<lparr>required_fields_coverage =
                        \<lparr>req_total = 3, req_covered = 1, req_missing = [PStr ''b'', PStr ''c'']\<rparr>,
                      enum_coverage = [], min_max_coverage = []\<rparr>\<rparr>"
  have run: "validate_data_against_schema example_validator id required_df (Some required_schema) = Inr ?rep"
    by code_simp
  have ne: "\<not> df_empty required_df" by code_simp
  have wf: "wf_df required_df" by code_simp
  have ord: "is_order id" by (simp add: is_order_def)
  have req: "map_of required_schema ''required'' = Some (PList (map PStr [''a'', ''b'', ''c'']))"
    by (simp add: required_schema_def)
  have hv: "has_value required_df ''a''" "\<not> has_value required_df ''b''" "\<not> has_value required_df ''c''"
    by code_simp+
  from required_coverage [OF run ne wf ord req] obtain missing where
    m: "required_fields_coverage (coverage ?rep) =
       \<lparr>req_total = length (remdups [''a'', ''b'', ''c'']),
        req_covered = length (filter (has_value required_df) (remdups [''a'', ''b'', ''c''])),
        req_missing = map PStr missing\<rparr>"
      "filter is_required_warning (warnings ?rep) =
        (if missing = [] then [] else [\<lparr>field = Some ''N/A'', message = Missing_required missing\<rparr>])"
    by blast
  have "map PStr missing = [PStr ''b'', PStr ''c'']"
    using m(1) by simp
  then have "missing = [''b'', ''c'']"
    by (auto simp: map_eq_Cons_conv)
  with m(2) have "filter is_required_warning [\<lparr>field = Some ''N/A'', message = Missing_required [''b'', ''c'']\<rparr>] =
     [\<lparr>field = Some ''N/A'', message = Missing_required [''b'', ''c'']\<rparr>]"
    by simp
  then show ?thesis
    using run ne wf ord req hv by simp
qed


section \<open>Boundary coverage\<close>




lemma num_le_NaN [simp]: "\<not> num_le a NaN"
  by (cases a) simp_all












































text \<open>
  Two more points where the code departs from the claim as stated. A numeric column
  whose only value is \<open>inf\<close> gets no entry either, since \<open>inf\<close> is also the initial
  value of the scan (line 190). And the ends of the band are floats: with the
  minimum \<open>2^53 + 1\<close> and the same number as the only value of the column, the value
  equals the bound, yet \<open>bound + 0.01\<close> is rounded to \<open>2^53\<close>, below the value, and
  the flag is false.
\<close>

lemma infinite_column_has_no_boundary_entry:
  "column_values (FloatCol [PInf]) = [PInf] \<and>
   validate_data_against_schema example_validator id [(''score'', FloatCol [PInf])]
       (Some (minimum_schema 0)) =
     Inr \<lparr>overall_status = WARNINGS, errors = [],
          warnings = [\<lparr>field = Some ''score'', message = No_numeric_data ''score''\<rparr>],
          coverage = \<lparr>required_fields_coverage = \<lparr>req_total = 0, req_covered = 0, req_missing = []\<rparr>,
                      enum_coverage = [], min_max_coverage = []\<rparr>\<rparr>"
  by code_simp

lemma band_ends_are_rounded:
  "validate_data_against_schema example_validator id [(''score'', IntCol [9007199254740993])]
       (Some (minimum_schema 9007199254740993)) =
     Inr \<lparr>overall_status = WARNINGS, errors = [],
          warnings =
            [\<lparr>field = Some ''score'',
              message = Min_not_tested ''score'' (PInt 9007199254740993) (PInt 9007199254740993)\<rparr>],
          coverage = \<lparr>required_fields_coverage = \<lparr>req_total = 0, req_covered = 0, req_missing = []\<rparr>,
                      enum_coverage = [],
                      min_max_coverage =
                        [(''score'',
                          \<lparr>min_constraint = PInt 9007199254740993, max_constraint = PNone,
                           min_data_value = PInt 9007199254740993,
                           max_data_value = PInt 9007199254740993,
                           min_boundary_tested = False, max_boundary_tested = True\<rparr>)]\<rparr>\<rparr> \<and>
   band (PInt 9007199254740993) (Fin double_001) = Some (Fin 9007199254740992, Fin 9007199254740992)"
  by code_simp



text \<open>The second example of the claim: the extremes 10 and 90 test neither bound.\<close>

lemma interior_extremes_not_tested:
  "validate_data_against_schema example_validator id score_df_interior (Some score_schema) =
     Inr \<lparr>overall_status = WARNINGS, errors = [],
          warnings =
            [\<lparr>field = Some ''score'', message = Min_not_tested ''score'' (PInt 0) (PInt 10)\<rparr>,
             \<lparr>field = Some ''score'', message = Max_not_tested ''score'' (PInt 100) (PInt 90)\<rparr>],
          coverage = \<lparr>required_fields_coverage = \<lparr>req_total = 0, req_covered = 0, req_missing = []\<rparr>,
                      enum_coverage = [],
                      min_max_coverage =
                        [(''score'',
                          \<lparr>min_constraint = PInt 0, max_constraint = PInt 100,
                           min_data_value = PInt 10, max_data_value = PInt 90,
                           min_boundary_tested = False, max_boundary_tested = False\<rparr>)]\<rparr>\<rparr>"
  by code_simp


section \<open>Totality\<close>


text \<open>
  More inputs on which the coverage pass raises: a required name that is not a string
  (line 168 joins the missing names); a list in a cell of an enum column (line 150
  hashes the cells); an int bound too large for a float (line 196 multiplies it by
  \<open>0.01\<close>); and two columns of one name, the name being required (\<open>data_df[col]\<close> is then
  a frame, and line 145 asks for the truth value of a Series).
\<close>

lemma non_string_required_raises:
  "validate_data_against_schema example_validator id two_rows_df
     (Some [(''required'', PList [PInt 1])]) = Inl TypeError"
  by code_simp

lemma list_cell_in_enum_column_raises:
  "validate_data_against_schema example_validator id
     [(''tags'', ObjectCol [PList [PStr ''a''], PList [PStr ''b'']])]
     (Some [(''properties'', PDict [(''tags'', PDict [(''enum'', PList [PStr ''a''])])])]) =
   Inl TypeError"
  by code_simp

lemma huge_bound_raises:
  "validate_data_against_schema example_validator id score_df_interior
     (Some [(''properties'',
             PDict [(''score'', PDict [(''minimum'', PInt 0), (''maximum'', PInt (10 ^ 309))])])]) =
   Inl OverflowError"
  by code_simp

lemma duplicate_column_raises:
  "validate_data_against_schema example_validator id [(''a'', IntCol [1]), (''a'', IntCol [2])]
     (Some [(''required'', PList [PStr ''a''])]) = Inl ValueError"
  by code_simp



lemma overflow_threshold_value: "overflow_threshold = 2 ^ 1024 - 2 ^ 970"
  by (simp add: overflow_threshold_def)































end
